theory Spec2Isabelle
  imports Main "HOL-Library.Word" "HOL-Library.Monad_Syntax"
begin

unbundle bit_operations_syntax

section \<open>Common types\<close>

text \<open>
  \<^verbatim>\<open>esp_err_t\<close> is an integer code of the ESP-IDF. The codes the sources name are
  constructors; every other code a driver may hand back is \<open>ESP_ERR_OTHER\<close>.
  A C string is the list of its characters before the terminating NUL; a pointer that
  may be \<^verbatim>\<open>NULL\<close> is an \<open>option\<close>.
\<close>

datatype esp_err =
    ESP_OK
  | ESP_FAIL
  | ESP_ERR_NO_MEM
  | ESP_ERR_INVALID_ARG
  | ESP_ERR_INVALID_STATE
  | ESP_ERR_INVALID_SIZE
  | ESP_ERR_NOT_FOUND
  | ESP_ERR_NVS_NOT_FOUND
  | ESP_ERR_OTHER int

type_synonym u32 = "32 word"

section \<open>Permission flags and the name table (app\_manager.h, app\_permissions.c)\<close>

definition APP_PERM_RF_RECEIVE :: u32 where "APP_PERM_RF_RECEIVE = push_bit 0 1"
definition APP_PERM_RF_TRANSMIT :: u32 where "APP_PERM_RF_TRANSMIT = push_bit 1 1"
definition APP_PERM_GPIO_READ :: u32 where "APP_PERM_GPIO_READ = push_bit 2 1"
definition APP_PERM_GPIO_WRITE :: u32 where "APP_PERM_GPIO_WRITE = push_bit 3 1"
definition APP_PERM_STORAGE_READ :: u32 where "APP_PERM_STORAGE_READ = push_bit 4 1"
definition APP_PERM_STORAGE_WRITE :: u32 where "APP_PERM_STORAGE_WRITE = push_bit 5 1"
definition APP_PERM_UI_CREATE :: u32 where "APP_PERM_UI_CREATE = push_bit 6 1"
definition APP_PERM_NETWORK :: u32 where "APP_PERM_NETWORK = push_bit 7 1"
definition APP_PERM_SYSTEM :: u32 where "APP_PERM_SYSTEM = push_bit 8 1"

lemmas APP_PERM_defs =
  APP_PERM_RF_RECEIVE_def APP_PERM_RF_TRANSMIT_def APP_PERM_GPIO_READ_def
  APP_PERM_GPIO_WRITE_def APP_PERM_STORAGE_READ_def APP_PERM_STORAGE_WRITE_def
  APP_PERM_UI_CREATE_def APP_PERM_NETWORK_def APP_PERM_SYSTEM_def

definition permission_map :: "(string \<times> u32) list" where
  "permission_map =
    [(''rf.receive'', APP_PERM_RF_RECEIVE),
     (''rf.transmit'', APP_PERM_RF_TRANSMIT),
     (''gpio.read'', APP_PERM_GPIO_READ),
     (''gpio.write'', APP_PERM_GPIO_WRITE),
     (''storage.read'', APP_PERM_STORAGE_READ),
     (''storage.write'', APP_PERM_STORAGE_WRITE),
     (''ui.create'', APP_PERM_UI_CREATE),
     (''network'', APP_PERM_NETWORK),
     (''system'', APP_PERM_SYSTEM)]"

section \<open>The NVS driver\<close>

text \<open>
  The permission store keeps one \<^verbatim>\<open>uint32_t\<close> per app id in the NVS namespace
  \<^verbatim>\<open>app_perms\<close>. The NVS driver belongs to the ESP-IDF, not to this repository; it is
  modelled by its documented contract. The namespace is a map from keys to values; it
  exists once it has been opened for writing; opening it read-only before that reports
  \<open>ESP_ERR_NVS_NOT_FOUND\<close>. Each way the driver can refuse a call is a field: an error
  for every open (a partition that is not initialised), an error per key (a name the
  driver rejects), an error for every write (no space left) and one for every commit.
  \<open>ESP_OK\<close> in such a field means that the driver does not refuse.
\<close>

record nvs_flash =
  nvs_entries :: "string \<rightharpoonup> u32"
  nvs_ns_exists :: bool
  nvs_open_fault :: esp_err
  nvs_key_fault :: "string \<Rightarrow> esp_err"
  nvs_write_fault :: esp_err
  nvs_commit_fault :: esp_err

datatype nvs_open_mode = NVS_READONLY | NVS_READWRITE

definition nvs_open :: "nvs_open_mode \<Rightarrow> nvs_flash \<Rightarrow> esp_err \<times> nvs_flash" where
  "nvs_open mode nvs =
    (if nvs_open_fault nvs \<noteq> ESP_OK then (nvs_open_fault nvs, nvs)
     else case mode of
       NVS_READONLY \<Rightarrow>
         (if nvs_ns_exists nvs then (ESP_OK, nvs) else (ESP_ERR_NVS_NOT_FOUND, nvs))
     | NVS_READWRITE \<Rightarrow> (ESP_OK, nvs\<lparr>nvs_ns_exists := True\<rparr>))"

text \<open>\<^verbatim>\<open>nvs_get_u32\<close> writes through its out-pointer only when it returns \<open>ESP_OK\<close>.\<close>

definition nvs_get_u32 :: "nvs_flash \<Rightarrow> string \<Rightarrow> u32 \<Rightarrow> esp_err \<times> u32" where
  "nvs_get_u32 nvs key out_value =
    (if nvs_key_fault nvs key \<noteq> ESP_OK then (nvs_key_fault nvs key, out_value)
     else case nvs_entries nvs key of
       None \<Rightarrow> (ESP_ERR_NVS_NOT_FOUND, out_value)
     | Some v \<Rightarrow> (ESP_OK, v))"



section \<open>The permission store (app\_permissions.c)\<close>

text \<open>
  \<open>app_permissions_load nvs app_id permissions\<close>: the third argument is what the
  caller's variable holds before the call (\<open>None\<close> for a \<^verbatim>\<open>NULL\<close> pointer); the result is
  the return code and what the variable holds afterwards (0 where there is no variable).
  An argument that is refused leaves the variable as it was.
\<close>

definition app_permissions_load ::
    "nvs_flash \<Rightarrow> string option \<Rightarrow> u32 option \<Rightarrow> esp_err \<times> u32" where
  "app_permissions_load nvs app_id permissions =
    (case (app_id, permissions) of
       (Some aid, Some p0) \<Rightarrow>
         (case nvs_open NVS_READONLY nvs of
            (ret, nvs1) \<Rightarrow>
              if ret \<noteq> ESP_OK then (ESP_OK, 0)
              else
                (case nvs_get_u32 nvs1 aid p0 of
                   (ret, p1) \<Rightarrow>
                     if ret = ESP_ERR_NVS_NOT_FOUND then (ESP_OK, 0)
                     else if ret \<noteq> ESP_OK then (ret, p1)
                     else (ESP_OK, p1)))
     | (None, Some p0) \<Rightarrow> (ESP_ERR_INVALID_ARG, p0)
     | (_, None) \<Rightarrow> (ESP_ERR_INVALID_ARG, 0))"


definition app_permissions_check :: "nvs_flash \<Rightarrow> string option \<Rightarrow> u32 \<Rightarrow> bool" where
  "app_permissions_check nvs app_id required_permission =
    (case app_id of
       None \<Rightarrow> False
     | Some aid \<Rightarrow>
         (case app_permissions_load nvs (Some aid) (Some 0) of
            (ret, app_permissions) \<Rightarrow>
              if ret \<noteq> ESP_OK then False
              else (app_permissions AND required_permission) \<noteq> 0))"



text \<open>
  \<open>strtok s\<close> is one call of \<^verbatim>\<open>strtok\<close> with the delimiter set \<^verbatim>\<open>","\<close> on the text \<open>s\<close> that
  is still to be scanned: it skips leading commas, answers \<open>None\<close> at the end of the
  text, and otherwise the token together with the text after the comma that ended it.
\<close>

definition strtok :: "string \<Rightarrow> (string \<times> string) option" where
  "strtok s =
    (let s1 = dropWhile (\<lambda>c. c = CHR '','') s
     in if s1 = [] then None
        else Some (takeWhile (\<lambda>c. c \<noteq> CHR '','') s1,
                   drop 1 (dropWhile (\<lambda>c. c \<noteq> CHR '','') s1)))"

text \<open>
  The two trimming loops of \<^verbatim>\<open>app_permissions_parse_string\<close>: blanks and tabs are skipped at
  the front; blanks, tabs, line feeds and carriage returns are cut at the back, but never
  the first character that is left (\<^verbatim>\<open>end > token\<close>).
\<close>

definition trim_token :: "string \<Rightarrow> string" where
  "trim_token token =
    (case dropWhile (\<lambda>c. c = CHR '' '' \<or> c = CHR 0x09) token of
       [] \<Rightarrow> []
     | c # cs \<Rightarrow>
         c # rev (dropWhile (\<lambda>c. c = CHR '' '' \<or> c = CHR 0x09 \<or> c = CHR 0x0A \<or> c = CHR 0x0D)
                    (rev cs)))"

text \<open>The inner \<^verbatim>\<open>for\<close> loop over the table, leaving at the first name that matches.\<close>

fun match_permission :: "(string \<times> u32) list \<Rightarrow> string \<Rightarrow> u32 \<Rightarrow> u32" where
  "match_permission [] token permissions = permissions"
| "match_permission ((name, flag) # rest) token permissions =
     (if token = name then permissions OR flag
      else match_permission rest token permissions)"

function parse_tokens :: "string \<Rightarrow> u32 \<Rightarrow> u32" where
  "parse_tokens s permissions =
     (case strtok s of
        None \<Rightarrow> permissions
      | Some (token, rest) \<Rightarrow>
          parse_tokens rest (match_permission permission_map (trim_token token) permissions))"
  by pat_completeness auto
termination
proof (relation "measure (\<lambda>(s, p). length s)")
  show "wf (measure (\<lambda>(s, p). length s))" by simp
next
  fix s :: string and permissions :: u32 and x2 token rest
  assume "strtok s = Some x2" and "(token, rest) = x2"
  then have st: "strtok s = Some (token, rest)" by simp
  define s1 where "s1 = dropWhile (\<lambda>c. c = CHR '','') s"
  from st have ne: "s1 \<noteq> []" and r: "rest = drop 1 (dropWhile (\<lambda>c. c \<noteq> CHR '','') s1)"
    by (auto simp: strtok_def s1_def Let_def split: if_splits)
  have "length rest \<le> length s1 - 1"
    unfolding r using length_dropWhile_le [of "\<lambda>c. c \<noteq> CHR '',''" s1] by simp
  moreover have "length s1 \<le> length s"
    unfolding s1_def by (rule length_dropWhile_le)
  moreover have "0 < length s1" using ne by simp
  ultimately have "length rest < length s" by linarith
  then show "((rest, match_permission permission_map (trim_token token) permissions), s, permissions)
        \<in> measure (\<lambda>(s, p). length s)" by simp
qed

declare parse_tokens.simps [simp del]

text \<open>
  \<open>strdup_ok\<close> says whether the working copy of the string could be allocated; without
  it the function gives up with no permission at all.
\<close>

definition app_permissions_parse_string :: "bool \<Rightarrow> string option \<Rightarrow> u32" where
  "app_permissions_parse_string strdup_ok permissions_str =
    (case permissions_str of
       None \<Rightarrow> 0
     | Some str \<Rightarrow> if \<not> strdup_ok then 0 else parse_tokens str 0)"





section \<open>The permission strings of the specification\<close>







section \<open>The script engine (mjs.h, mjs.c)\<close>

type_synonym mjs_val_t = "64 word"

definition MJS_NULL :: mjs_val_t where "MJS_NULL = 0x7ff8000000000001"
definition MJS_UNDEFINED :: mjs_val_t where "MJS_UNDEFINED = 0x7ff8000000000002"
definition MJS_TRUE :: mjs_val_t where "MJS_TRUE = 0x7ff8000000000003"
definition MJS_FALSE :: mjs_val_t where "MJS_FALSE = 0x7ff8000000000004"

text \<open>
  \<^verbatim>\<open>struct mjs\<close>: the error message (\<open>None\<close> for \<^verbatim>\<open>NULL\<close>), whether an error handler is
  installed, the global object and the table of globals, whose \<^verbatim>\<open>global_count\<close> is the
  length of the list. An engine instance is held by the one context that created it, so
  a context carries its instance as a value. Where a function of mjs.c tests an argument
  for \<^verbatim>\<open>NULL\<close> and every caller passes an object, the type decides the test. The
  copy that \<^verbatim>\<open>mjs_set_global\<close> makes of a new name is taken to succeed (the source does not
  test it).
\<close>

record mjs =
  mjs_error_msg :: "string option"
  mjs_has_error_handler :: bool
  mjs_global_object :: mjs_val_t
  mjs_globals :: "(string \<times> mjs_val_t) list"

definition mjs_create :: mjs where
  "mjs_create =
     \<lparr>mjs_error_msg = None, mjs_has_error_handler = False,
      mjs_global_object = MJS_NULL, mjs_globals = []\<rparr>"

definition mjs_is_error :: "mjs_val_t \<Rightarrow> bool" where
  "mjs_is_error val \<longleftrightarrow> val = MJS_NULL \<and> False"

definition mjs_get_error_message :: "mjs option \<Rightarrow> string" where
  "mjs_get_error_message m =
     (case m of
        None \<Rightarrow> ''Invalid mJS instance''
      | Some m \<Rightarrow> (case mjs_error_msg m of Some msg \<Rightarrow> msg | None \<Rightarrow> ''No error''))"

definition mjs_set_error_handler :: "mjs \<Rightarrow> mjs" where
  "mjs_set_error_handler m = m\<lparr>mjs_has_error_handler := True\<rparr>"

text \<open>
  \<^verbatim>\<open>mjs_mk_string\<close> keeps the low 32 bits of the address of the text under the tag
  \<^verbatim>\<open>0x1000000000000000\<close>; \<^verbatim>\<open>mjs_get_string\<close> recognises a string value by that tag.
\<close>

definition mjs_mk_string :: "u32 \<Rightarrow> mjs_val_t" where
  "mjs_mk_string str = 0x1000000000000000 OR (ucast str AND 0xFFFFFFFF)"

definition mjs_is_string :: "mjs_val_t \<Rightarrow> bool" where
  "mjs_is_string val \<longleftrightarrow> val AND 0xF000000000000000 = 0x1000000000000000"

text \<open>The first loop of \<^verbatim>\<open>mjs_set_global\<close>: overwrite the value of a name already bound.\<close>

fun update_global ::
    "(string \<times> mjs_val_t) list \<Rightarrow> string \<Rightarrow> mjs_val_t \<Rightarrow> (string \<times> mjs_val_t) list option" where
  "update_global [] name val = None"
| "update_global ((n, v) # globals) name val =
     (if n = name then Some ((n, val) # globals)
      else map_option ((#) (n, v)) (update_global globals name val))"

definition mjs_set_global :: "mjs \<Rightarrow> string \<Rightarrow> mjs_val_t \<Rightarrow> mjs" where
  "mjs_set_global m name val =
     (case update_global (mjs_globals m) name val of
        Some globals \<Rightarrow> m\<lparr>mjs_globals := globals\<rparr>
      | None \<Rightarrow>
          if length (mjs_globals m) < 32
          then m\<lparr>mjs_globals := mjs_globals m @ [(name, val)]\<rparr>
          else m)"

fun mjs_get_global_loop :: "(string \<times> mjs_val_t) list \<Rightarrow> string \<Rightarrow> mjs_val_t" where
  "mjs_get_global_loop [] name = MJS_UNDEFINED"
| "mjs_get_global_loop ((n, v) # globals) name =
     (if n = name then v else mjs_get_global_loop globals name)"

definition mjs_get_global :: "mjs \<Rightarrow> string \<Rightarrow> mjs_val_t" where
  "mjs_get_global m name = mjs_get_global_loop (mjs_globals m) name"

text \<open>\<open>func\<close> is the address of the native function; a null function pointer is 0.\<close>

definition mjs_set_ffi_func :: "mjs \<Rightarrow> string \<Rightarrow> u32 \<Rightarrow> mjs" where
  "mjs_set_ffi_func m name func =
     (if func = 0 then m
      else mjs_set_global m name (0x2000000000000000 OR (ucast func AND 0xFFFFFFFF)))"

section \<open>The platform\<close>

text \<open>
  What is fixed outside the functions under study: the FreeRTOS tick period and where
  the linker puts a function or a string constant (\<open>address_of\<close>, by the object's name or
  text). The interpreter \<^verbatim>\<open>mjs_exec\<close> of mjs.c is a parameter as well. It scans the code
  for a call of console.log, a variable declaration or a single expression, with bounded
  loops, and calls no native function; its value reaches \<^verbatim>\<open>mjs_engine_execute\<close> only as
  the argument of \<^verbatim>\<open>mjs_is_error\<close>. Here it is any function from the engine instance and
  the code to the value of the script, the instance it leaves behind and the messages it
  hands to the error handler of the instance on its way; what is proved holds for each
  such function.
\<close>

record platform =
  portTICK_PERIOD_MS :: u32
  address_of :: "string \<Rightarrow> u32"
  mjs_exec :: "mjs \<Rightarrow> string \<Rightarrow> mjs_val_t \<times> mjs \<times> string list"

section \<open>Data of the engine, the sandbox manager and the app manager\<close>

datatype js_exec_result_t =
    JS_EXEC_OK
  | JS_EXEC_ERROR
  | JS_EXEC_TIMEOUT
  | JS_EXEC_OUT_OF_MEMORY
  | JS_EXEC_PERMISSION_DENIED

record js_context_t =
  ctx_mjs :: "mjs option"
  ctx_filename :: "string option"
  ctx_code :: "string option"
  ctx_is_running :: bool
  ctx_memory_limit :: u32
  ctx_execution_time_limit_ms :: u32

record js_app_manifest_t =
  mf_name :: string
  mf_version :: string
  mf_author :: string
  mf_description :: string
  mf_entry_point :: string
  mf_permissions :: string
  mf_memory_limit :: u32
  mf_has_icon :: bool

type_synonym ctx_ptr = nat

datatype app_state_t = APP_STATE_STOPPED | APP_STATE_RUNNING | APP_STATE_PAUSED | APP_STATE_ERROR

record app_info_t =
  ai_id :: string
  ai_name :: string
  ai_version :: string
  ai_author :: string
  ai_entry_point :: string
  ai_install_path :: string
  ai_state :: app_state_t
  ai_js_context :: "ctx_ptr option"
  ai_memory_usage :: u32
  ai_cpu_time :: u32
  ai_is_system_app :: bool
  ai_permissions :: u32

record sandbox_t =
  sb_app_id :: string
  sb_js_context :: "ctx_ptr option"
  sb_memory_limit :: u32
  sb_time_limit :: u32
  sb_start_time :: u32
  sb_active :: bool

definition MAX_INSTALLED_APPS :: nat where "MAX_INSTALLED_APPS = 16"
definition MAX_APP_PATH_LEN :: nat where "MAX_APP_PATH_LEN = 128"
definition MAX_SANDBOXES :: nat where "MAX_SANDBOXES = 8"
definition DEFAULT_MEMORY_LIMIT :: u32 where "DEFAULT_MEMORY_LIMIT = 65536"
definition DEFAULT_EXEC_TIME_LIMIT :: u32 where "DEFAULT_EXEC_TIME_LIMIT = 5000"

text \<open>
  A file system as the C library shows it: the directories that exist and the content
  of every file. The root directory is the empty path.
\<close>

record filesys =
  fs_dirs :: "string list"
  fs_files :: "string \<rightharpoonup> string"

datatype esp_log_level = ESP_LOG_ERROR | ESP_LOG_WARN | ESP_LOG_INFO

text \<open>
  The state of the firmware. The file-scope variables of app\_manager.c, app\_sandbox.c,
  mjs\_engine.c and js\_api.c keep their names (the three \<^verbatim>\<open>s_initialized\<close> flags are told
  apart by their file). The registry \<open>s_installed_apps\<close> is the list of the first
  \<^verbatim>\<open>s_num_installed_apps\<close> slots of the array, so that the counter is its length. The
  pool \<open>s_sandboxes\<close> is the list of all \<open>MAX_SANDBOXES\<close> slots and \<open>s_contexts\<close> the list
  of the eight context slots. Contexts live on the heap: \<open>ctx_heap\<close> gives what is stored
  at an address, \<open>next_ptr\<close> is the address the next \<^verbatim>\<open>calloc\<close> hands out.

  The rest is the environment. \<open>alloc_ok\<close> tells for the n-th request to the allocator
  whether it succeeds, \<open>random_words\<close> is what \<^verbatim>\<open>esp_random\<close> delivers call after call,
  \<open>tick_counts\<close> what \<^verbatim>\<open>xTaskGetTickCount\<close> reads call after call. The radio driver is a
  test double: it records every call of \<^verbatim>\<open>cc1101_transmit\<close> with its data and answers
  with \<open>cc1101_result\<close>. \<open>sandbox_log\<close> is what the sandbox manager writes to the log; the
  log lines of the other files are left out. The app manager is initialised; its mutex
  is not modelled: the functions run one at a time.
\<close>

record world =
  s_installed_apps :: "app_info_t list"
  s_current_app_id :: string
  s_sandboxes :: "sandbox_t list"
  s_sandbox_count :: int
  sandbox_log :: "(esp_log_level \<times> string) list"
  s_contexts :: "ctx_ptr option list"
  s_context_count :: "8 word"
  mjs_engine_initialized :: bool
  s_error_callback :: bool
  error_callback_calls :: "string list"
  js_api_initialized :: bool
  ctx_heap :: "ctx_ptr \<Rightarrow> js_context_t"
  next_ptr :: ctx_ptr
  alloc_ok :: "nat \<Rightarrow> bool"
  alloc_count :: nat
  random_words :: "nat \<Rightarrow> u32"
  random_count :: nat
  tick_counts :: "nat \<Rightarrow> u32"
  tick_reads :: nat
  fs :: filesys
  cc1101_result :: esp_err
  cc1101_transmit_calls :: "8 word list list"

section \<open>Environment calls\<close>

definition heap_alloc :: "world \<Rightarrow> bool \<times> world" where
  "heap_alloc w = (alloc_ok w (alloc_count w), w\<lparr>alloc_count := Suc (alloc_count w)\<rparr>)"

definition esp_random :: "world \<Rightarrow> u32 \<times> world" where
  "esp_random w = (random_words w (random_count w), w\<lparr>random_count := Suc (random_count w)\<rparr>)"

definition xTaskGetTickCount :: "world \<Rightarrow> u32 \<times> world" where
  "xTaskGetTickCount w = (tick_counts w (tick_reads w), w\<lparr>tick_reads := Suc (tick_reads w)\<rparr>)"

definition cc1101_transmit :: "world \<Rightarrow> 8 word list \<Rightarrow> esp_err \<times> world" where
  "cc1101_transmit w data =
     (cc1101_result w, w\<lparr>cc1101_transmit_calls := cc1101_transmit_calls w @ [data]\<rparr>)"

text \<open>\<^verbatim>\<open>snprintf(buf, n, ...)\<close> keeps at most \<open>n - 1\<close> characters of the formatted text.\<close>

definition snprintf :: "nat \<Rightarrow> string \<Rightarrow> string" where
  "snprintf n text = take (n - 1) text"

definition hex_digit :: "nat \<Rightarrow> char" where
  "hex_digit d = ''0123456789abcdef'' ! (d mod 16)"

text \<open>The conversion \<^verbatim>\<open>%08x\<close> of a 32-bit value: eight lower-case hexadecimal digits.\<close>

definition hex8 :: "u32 \<Rightarrow> string" where
  "hex8 x = map (\<lambda>i. hex_digit (unat x div 16 ^ i mod 16)) [7, 6, 5, 4, 3, 2, 1, 0]"

definition parent_dir :: "string \<Rightarrow> string" where
  "parent_dir path = rev (drop 1 (dropWhile (\<lambda>c. c \<noteq> CHR ''/'') (rev path)))"

text \<open>
  \<^verbatim>\<open>mkdir\<close> fails (\<open>None\<close>) when the path exists already or its parent directory does not.
\<close>

definition mkdir :: "filesys \<Rightarrow> string \<Rightarrow> filesys option" where
  "mkdir f path =
     (if path \<in> set (fs_dirs f) \<or> fs_files f path \<noteq> None \<or> parent_dir path \<notin> set (fs_dirs f)
      then None
      else Some (f\<lparr>fs_dirs := path # fs_dirs f\<rparr>))"

text \<open>\<^verbatim>\<open>fopen(path, "r")\<close>: the content to be read, \<open>None\<close> when there is no such file.\<close>

definition fopen_r :: "filesys \<Rightarrow> string \<Rightarrow> string option" where
  "fopen_r f path = fs_files f path"

text \<open>
  \<^verbatim>\<open>fopen(path, "w")\<close> creates the file or empties it; it fails when the directory of the
  file does not exist or the path is a directory.
\<close>

definition fopen_w :: "filesys \<Rightarrow> string \<Rightarrow> filesys option" where
  "fopen_w f path =
     (if path \<in> set (fs_dirs f) \<or> parent_dir path \<notin> set (fs_dirs f) then None
      else Some (f\<lparr>fs_files := (fs_files f)(path \<mapsto> [])\<rparr>))"

text \<open>Writing appends to the open file.\<close>

definition fwrite :: "filesys \<Rightarrow> string \<Rightarrow> string \<Rightarrow> filesys" where
  "fwrite f path text =
     f\<lparr>fs_files := (fs_files f)(path \<mapsto> (case fs_files f path of None \<Rightarrow> [] | Some old \<Rightarrow> old) @ text)\<rparr>"

text \<open>
  \<^verbatim>\<open>fgets(line, n, file)\<close> on the text still unread: at most \<open>n - 1\<close> characters, up
  to and with the first line feed; \<open>None\<close> at the end of the file.
\<close>

definition fgets :: "nat \<Rightarrow> string \<Rightarrow> (string \<times> string) option" where
  "fgets n stream =
     (if stream = [] then None
      else
        (let line = take (n - 1)
                      (takeWhile (\<lambda>c. c \<noteq> CHR 0x0A) stream
                       @ take 1 (dropWhile (\<lambda>c. c \<noteq> CHR 0x0A) stream))
         in Some (line, drop (length line) stream)))"

section \<open>The engine (mjs\_engine.c)\<close>

text \<open>The \<^verbatim>\<open>for\<close> loops that look for the first slot of an array with a given property.\<close>

fun first_index :: "('a \<Rightarrow> bool) \<Rightarrow> 'a list \<Rightarrow> nat \<Rightarrow> nat option" where
  "first_index P [] i = None"
| "first_index P (x # xs) i = (if P x then Some i else first_index P xs (Suc i))"

definition mjs_engine_create_context :: "world \<Rightarrow> u32 \<Rightarrow> ctx_ptr option \<times> world" where
  "mjs_engine_create_context w memory_limit =
     (if \<not> mjs_engine_initialized w then (None, w)
      else if s_context_count w \<ge> 8 then (None, w)
      else
        (case first_index (\<lambda>c. c = None) (s_contexts w) 0 of
           None \<Rightarrow> (None, w)
         | Some slot \<Rightarrow>
             (case heap_alloc w of
                (ctx_ok, w1) \<Rightarrow>
                  if \<not> ctx_ok then (None, w1)
                  else
                    (case heap_alloc w1 of
                       (mjs_ok, w2) \<Rightarrow>
                         if \<not> mjs_ok then (None, w2)
                         else
                           (let ctx =
                                  \<lparr>ctx_mjs = Some (mjs_set_error_handler mjs_create),
                                   ctx_filename = None,
                                   ctx_code = None,
                                   ctx_is_running = False,
                                   ctx_memory_limit =
                                     (if memory_limit > 0 then memory_limit else DEFAULT_MEMORY_LIMIT),
                                   ctx_execution_time_limit_ms = DEFAULT_EXEC_TIME_LIMIT\<rparr>;
                                p = next_ptr w2
                            in (Some p,
                                w2\<lparr>ctx_heap := (ctx_heap w2)(p := ctx),
                                    next_ptr := Suc p,
                                    s_contexts := (s_contexts w2)[slot := Some p],
                                    s_context_count := s_context_count w2 + 1\<rparr>))))))"

text \<open>
  Destroying a context frees its engine instance and its strings, takes its address out of
  the first slot of \<open>s_contexts\<close> that holds it, and frees the context itself. Freed memory
  is no longer looked at, so the heap keeps its content.
\<close>

definition mjs_engine_destroy_context :: "world \<Rightarrow> ctx_ptr option \<Rightarrow> world" where
  "mjs_engine_destroy_context w ctx =
     (case ctx of
        None \<Rightarrow> w
      | Some p \<Rightarrow>
          if \<not> mjs_engine_initialized w then w
          else
            (let w1 = (if ctx_is_running (ctx_heap w p)
                       then w\<lparr>ctx_heap := (ctx_heap w)(p := (ctx_heap w p)\<lparr>ctx_is_running := False\<rparr>)\<rparr>
                       else w)
             in case first_index (\<lambda>c. c = Some p) (s_contexts w1) 0 of
                  None \<Rightarrow> w1
                | Some i \<Rightarrow>
                    w1\<lparr>s_contexts := (s_contexts w1)[i := None],
                        s_context_count := s_context_count w1 - 1\<rparr>))"

text \<open>
  \<^verbatim>\<open>mjs_engine_load_file\<close>. A file is a text without NUL; it is read whole (a read that
  delivers less than the size of the file belongs to a failing device and is left out).
\<close>

definition mjs_engine_load_file :: "world \<Rightarrow> ctx_ptr option \<Rightarrow> string option \<Rightarrow> esp_err \<times> world" where
  "mjs_engine_load_file w ctx filename =
     (case (ctx, filename) of
        (Some p, Some fname) \<Rightarrow>
          (case fopen_r (fs w) fname of
             None \<Rightarrow> (ESP_ERR_NOT_FOUND, w)
           | Some content \<Rightarrow>
               (let file_size = length content
                in if file_size \<le> 0 \<or> file_size > unat (ctx_memory_limit (ctx_heap w p)) div 2
                   then (ESP_ERR_INVALID_SIZE, w)
                   else
                     (case heap_alloc w of
                        (code_ok, w1) \<Rightarrow>
                          if \<not> code_ok then (ESP_ERR_NO_MEM, w1)
                          else
                            (ESP_OK,
                             w1\<lparr>ctx_heap := (ctx_heap w1)
                                   (p := (ctx_heap w1 p)\<lparr>ctx_filename := Some fname,
                                                          ctx_code := Some content\<rparr>)\<rparr>))))
      | _ \<Rightarrow> (ESP_ERR_INVALID_ARG, w))"

text \<open>
  The error handler that \<^verbatim>\<open>mjs_engine_create_context\<close> installs in every engine instance,
  with the context as its user data: it passes the message on to the error callback, if
  one is registered, and marks the context as not running.
\<close>

definition mjs_error_handler :: "world \<Rightarrow> ctx_ptr \<Rightarrow> string \<Rightarrow> world" where
  "mjs_error_handler w p msg =
     (let w1 = (if s_error_callback w
                then w\<lparr>error_callback_calls := error_callback_calls w @ [msg]\<rparr>
                else w)
      in w1\<lparr>ctx_heap := (ctx_heap w1)(p := (ctx_heap w1 p)\<lparr>ctx_is_running := False\<rparr>)\<rparr>)"

text \<open>
  \<^verbatim>\<open>mjs_engine_execute\<close>. The two readings of the tick counter are taken before and after
  the call of the interpreter; the products and the difference are computed in
  \<^verbatim>\<open>uint32_t\<close> and wrap around.
\<close>

definition mjs_engine_execute ::
    "platform \<Rightarrow> world \<Rightarrow> ctx_ptr option \<Rightarrow> js_exec_result_t \<times> world" where
  "mjs_engine_execute pf w ctx =
     (case ctx of
        None \<Rightarrow> (JS_EXEC_ERROR, w)
      | Some p \<Rightarrow>
          (case (ctx_code (ctx_heap w p), ctx_mjs (ctx_heap w p)) of
             (Some code, Some m) \<Rightarrow>
               (let w1 = w\<lparr>ctx_heap := (ctx_heap w)(p := (ctx_heap w p)\<lparr>ctx_is_running := True\<rparr>)\<rparr>
                in case xTaskGetTickCount w1 of
                     (ticks0, w2) \<Rightarrow>
                       (let start_time = ticks0 * portTICK_PERIOD_MS pf
                        in case mjs_exec pf m code of
                             (result, m', errors) \<Rightarrow>
                               (let w3 = fold (\<lambda>msg w. mjs_error_handler w p msg)
                                           (if mjs_has_error_handler m then errors else [])
                                           (w2\<lparr>ctx_heap := (ctx_heap w2)
                                                 (p := (ctx_heap w2 p)\<lparr>ctx_mjs := Some m'\<rparr>)\<rparr>)
                                in case xTaskGetTickCount w3 of
                                     (ticks1, w4) \<Rightarrow>
                                       (let exec_time = ticks1 * portTICK_PERIOD_MS pf - start_time;
                                            w5 = w4\<lparr>ctx_heap := (ctx_heap w4)
                                                   (p := (ctx_heap w4 p)\<lparr>ctx_is_running := False\<rparr>)\<rparr>
                                        in if mjs_is_error result
                                           then
                                             (JS_EXEC_ERROR,
                                              if s_error_callback w5
                                              then w5\<lparr>error_callback_calls :=
                                                        error_callback_calls w5
                                                        @ [mjs_get_error_message (Some m')]\<rparr>
                                              else w5)
                                           else if exec_time >
                                                   ctx_execution_time_limit_ms (ctx_heap w5 p)
                                           then (JS_EXEC_TIMEOUT, w5)
                                           else (JS_EXEC_OK, w5)))))
           | _ \<Rightarrow> (JS_EXEC_ERROR, w)))"

section \<open>The permission hook and the manifest reader (mjs\_native\_api.c)\<close>

text \<open>The hook takes the context and the permission name; it grants whatever is asked.\<close>

definition mjs_engine_check_permission :: "ctx_ptr option \<Rightarrow> string option \<Rightarrow> bool" where
  "mjs_engine_check_permission ctx permission =
     (case (ctx, permission) of
        (Some p, Some perm) \<Rightarrow> True
      | _ \<Rightarrow> False)"

text \<open>
  \<^verbatim>\<open>strstr\<close> with a needle of one character: the text before its first occurrence and the
  text after it.
\<close>

definition find_char :: "char \<Rightarrow> string \<Rightarrow> (string \<times> string) option" where
  "find_char c s =
     (case dropWhile (\<lambda>x. x \<noteq> c) s of
        [] \<Rightarrow> None
      | x # after \<Rightarrow> Some (takeWhile (\<lambda>x. x \<noteq> c) s, after))"

definition isdigit :: "char \<Rightarrow> bool" where
  "isdigit c \<longleftrightarrow> 48 \<le> (of_char c :: nat) \<and> (of_char c :: nat) \<le> 57"

text \<open>
  \<^verbatim>\<open>atoi\<close> on a text that starts with a digit, stored into the \<^verbatim>\<open>uint32_t\<close> field. The C
  library of the platform computes it as \<^verbatim>\<open>(int) strtol(s, NULL, 10)\<close> with a \<^verbatim>\<open>long\<close> of 32
  bits, which stops at \<^verbatim>\<open>INT_MAX\<close> for a number that is too large.
\<close>

definition INT_MAX :: nat where "INT_MAX = 2147483647"

definition atoi :: "string \<Rightarrow> u32" where
  "atoi s =
     of_nat (min (foldl (\<lambda>n c. 10 * n + (of_char c - 48)) 0 (takeWhile isdigit s)) INT_MAX)"

text \<open>
  One turn of the reading loop on a line (a text without NUL). \<^verbatim>\<open>strncpy\<close> into a field
  that \<^verbatim>\<open>memset\<close> has cleared, with one less than the size of the field, keeps that many
  characters.
\<close>

definition parse_manifest_line :: "string \<Rightarrow> js_app_manifest_t \<Rightarrow> js_app_manifest_t" where
  "parse_manifest_line line manifest =
     (case find_char (CHR 0x22) line of
        None \<Rightarrow> manifest
      | Some (before_key, key_start) \<Rightarrow>
          (case find_char (CHR 0x22) key_start of
             None \<Rightarrow> manifest
           | Some (key, after_key) \<Rightarrow>
               (case find_char CHR '':'' after_key of
                  None \<Rightarrow> manifest
                | Some (before_colon, after_colon) \<Rightarrow>
                    (case dropWhile (\<lambda>c. c = CHR '' '' \<or> c = CHR 0x09) after_colon of
                       [] \<Rightarrow> manifest
                     | c # value_rest \<Rightarrow>
                         if c = CHR 0x22 then
                           (case find_char (CHR 0x22) value_rest of
                              None \<Rightarrow> manifest
                            | Some (val, after_value) \<Rightarrow>
                                if key = ''name'' then manifest\<lparr>mf_name := take 31 val\<rparr>
                                else if key = ''version'' then manifest\<lparr>mf_version := take 15 val\<rparr>
                                else if key = ''author'' then manifest\<lparr>mf_author := take 31 val\<rparr>
                                else if key = ''description''
                                  then manifest\<lparr>mf_description := take 127 val\<rparr>
                                else if key = ''entry_point''
                                  then manifest\<lparr>mf_entry_point := take 63 val\<rparr>
                                else if key = ''permissions''
                                  then manifest\<lparr>mf_permissions := take 255 val\<rparr>
                                else manifest)
                         else if isdigit c then
                           (if key = ''memory_limit''
                            then manifest\<lparr>mf_memory_limit := atoi (c # value_rest)\<rparr>
                            else manifest)
                         else if take 4 (c # value_rest) = ''true'' then
                           (if key = ''has_icon'' then manifest\<lparr>mf_has_icon := True\<rparr>
                            else manifest)
                         else manifest))))"

function read_manifest_lines :: "string \<Rightarrow> js_app_manifest_t \<Rightarrow> js_app_manifest_t" where
  "read_manifest_lines stream manifest =
     (case fgets 256 stream of
        None \<Rightarrow> manifest
      | Some (line, rest) \<Rightarrow> read_manifest_lines rest (parse_manifest_line line manifest))"
  by pat_completeness auto
termination
proof (relation "measure (\<lambda>(stream, m). length stream)")
  show "wf (measure (\<lambda>(stream, m). length stream))" by simp
next
  fix stream :: string and manifest :: js_app_manifest_t and x2 line rest
  assume "fgets 256 stream = Some x2" and "(line, rest) = x2"
  then have fg: "fgets 256 stream = Some (line, rest)" by simp
  then have ne: "stream \<noteq> []" by (auto simp: fgets_def split: if_splits)
  from fg have l: "line = take 255 (takeWhile (\<lambda>c. c \<noteq> CHR 0x0A) stream
                       @ take 1 (dropWhile (\<lambda>c. c \<noteq> CHR 0x0A) stream))"
    and r: "rest = drop (length line) stream"
    by (auto simp: fgets_def Let_def split: if_splits)
  have "takeWhile (\<lambda>c. c \<noteq> CHR 0x0A) stream
          @ take 1 (dropWhile (\<lambda>c. c \<noteq> CHR 0x0A) stream) \<noteq> []"
    using ne by (cases stream) auto
  then have "line \<noteq> []" unfolding l by simp
  then have "length rest < length stream" using ne unfolding r by (cases line) auto
  then show "((rest, parse_manifest_line line manifest), stream, manifest)
        \<in> measure (\<lambda>(stream, m). length stream)" by simp
qed

declare read_manifest_lines.simps [simp del]

definition empty_manifest :: js_app_manifest_t where
  "empty_manifest =
     \<lparr>mf_name = [], mf_version = [], mf_author = [], mf_description = [],
      mf_entry_point = [], mf_permissions = [], mf_memory_limit = 0, mf_has_icon = False\<rparr>"

text \<open>\<open>manifest\<close> says whether the caller passes a structure to fill.\<close>

definition mjs_engine_load_manifest ::
    "filesys \<Rightarrow> string option \<Rightarrow> bool \<Rightarrow> esp_err + js_app_manifest_t" where
  "mjs_engine_load_manifest f manifest_path manifest =
     (case manifest_path of
        None \<Rightarrow> Inl ESP_ERR_INVALID_ARG
      | Some path \<Rightarrow>
          if \<not> manifest then Inl ESP_ERR_INVALID_ARG
          else
            (case fopen_r f path of
               None \<Rightarrow> Inl ESP_ERR_NOT_FOUND
             | Some stream \<Rightarrow>
                 (let m = read_manifest_lines stream empty_manifest;
                      m = (if length (mf_name m) = 0 then m\<lparr>mf_name := ''Unknown App''\<rparr> else m);
                      m = (if length (mf_version m) = 0 then m\<lparr>mf_version := ''1.0.0''\<rparr> else m);
                      m = (if mf_memory_limit m = 0
                           then m\<lparr>mf_memory_limit := DEFAULT_MEMORY_LIMIT\<rparr> else m)
                  in Inr m)))"

section \<open>The native API bridge (js\_api.c, js\_rf\_api.c and the other modules)\<close>

definition js_make_error :: "platform \<Rightarrow> mjs option \<Rightarrow> string option \<Rightarrow> mjs_val_t" where
  "js_make_error pf m message =
     (case (m, message) of
        (Some m', Some msg) \<Rightarrow> mjs_mk_string (address_of pf msg)
      | _ \<Rightarrow> MJS_NULL)"

text \<open>\<^verbatim>\<open>rf.transmit\<close>: the native function the bridge binds to that name.\<close>

definition js_rf_transmit :: "platform \<Rightarrow> world \<Rightarrow> mjs option \<Rightarrow> mjs_val_t \<times> world" where
  "js_rf_transmit pf w m =
     (let test_data = [0x12, 0x34, 0x56, 0x78, 0xAB, 0xCD, 0xEF]
      in case cc1101_transmit w test_data of
           (ret, w1) \<Rightarrow>
             if ret \<noteq> ESP_OK then (js_make_error pf m (Some ''Failed to transmit data''), w1)
             else (MJS_UNDEFINED, w1))"

text \<open>
  The registration functions bind script names to native functions, one call of
  \<^verbatim>\<open>mjs_set_ffi_func\<close> after the other. A table pairs each script name with the name of
  the C function.
\<close>

definition rf_api_functions :: "(string \<times> string) list" where
  "rf_api_functions =
     [(''rf.setFrequency'', ''js_rf_set_frequency''),
      (''rf.getFrequency'', ''js_rf_get_frequency''),
      (''rf.setModulation'', ''js_rf_set_modulation''),
      (''rf.startReceive'', ''js_rf_start_receive''),
      (''rf.stopReceive'', ''js_rf_stop_receive''),
      (''rf.transmit'', ''js_rf_transmit''),
      (''rf.readSignal'', ''js_rf_read_signal''),
      (''rf.getRssi'', ''js_rf_get_rssi''),
      (''rf.isPresent'', ''js_rf_is_present''),
      (''rf.loadPreset'', ''js_rf_load_preset'')]"

definition gpio_api_functions :: "(string \<times> string) list" where
  "gpio_api_functions =
     [(''gpio.setup'', ''js_gpio_setup''),
      (''gpio.write'', ''js_gpio_write''),
      (''gpio.read'', ''js_gpio_read'')]"

definition ui_api_functions :: "(string \<times> string) list" where
  "ui_api_functions =
     [(''ui.createScreen'', ''js_ui_create_screen''),
      (''ui.createButton'', ''js_ui_create_button''),
      (''ui.createLabel'', ''js_ui_create_label''),
      (''ui.showNotification'', ''js_ui_show_notification'')]"

definition storage_api_functions :: "(string \<times> string) list" where
  "storage_api_functions =
     [(''storage.writeText'', ''js_storage_write_text''),
      (''storage.readText'', ''js_storage_read_text''),
      (''storage.setConfig'', ''js_storage_set_config''),
      (''storage.getConfig'', ''js_storage_get_config''),
      (''storage.deleteFile'', ''js_storage_delete_file'')]"

definition notification_api_functions :: "(string \<times> string) list" where
  "notification_api_functions =
     [(''notify.show'', ''js_notify_show''),
      (''notify.led'', ''js_notify_led''),
      (''notify.beep'', ''js_notify_beep''),
      (''notify.vibrate'', ''js_notify_vibrate''),
      (''notify.flash'', ''js_notify_flash'')]"

definition api_register ::
    "(string \<times> string) list \<Rightarrow> platform \<Rightarrow> world \<Rightarrow> ctx_ptr option \<Rightarrow> esp_err \<times> world" where
  "api_register functions pf w ctx =
     (case ctx of
        None \<Rightarrow> (ESP_ERR_INVALID_ARG, w)
      | Some p \<Rightarrow>
          (case ctx_mjs (ctx_heap w p) of
             None \<Rightarrow> (ESP_ERR_INVALID_ARG, w)
           | Some m \<Rightarrow>
               (let m' = fold (\<lambda>(name, func) m. mjs_set_ffi_func m name (address_of pf func))
                           functions m
                in (ESP_OK,
                    w\<lparr>ctx_heap := (ctx_heap w)(p := (ctx_heap w p)\<lparr>ctx_mjs := Some m'\<rparr>)\<rparr>))))"

definition js_rf_api_register :: "platform \<Rightarrow> world \<Rightarrow> ctx_ptr option \<Rightarrow> esp_err \<times> world" where
  "js_rf_api_register = api_register rf_api_functions"

definition js_gpio_api_register :: "platform \<Rightarrow> world \<Rightarrow> ctx_ptr option \<Rightarrow> esp_err \<times> world" where
  "js_gpio_api_register = api_register gpio_api_functions"

definition js_ui_api_register :: "platform \<Rightarrow> world \<Rightarrow> ctx_ptr option \<Rightarrow> esp_err \<times> world" where
  "js_ui_api_register = api_register ui_api_functions"

definition js_storage_api_register :: "platform \<Rightarrow> world \<Rightarrow> ctx_ptr option \<Rightarrow> esp_err \<times> world" where
  "js_storage_api_register = api_register storage_api_functions"

definition js_notification_api_register ::
    "platform \<Rightarrow> world \<Rightarrow> ctx_ptr option \<Rightarrow> esp_err \<times> world" where
  "js_notification_api_register = api_register notification_api_functions"

text \<open>
  \<^verbatim>\<open>ESP_ERROR_CHECK\<close> aborts the firmware when its argument is not \<open>ESP_OK\<close>: there is no
  state to go on with, which is \<open>None\<close>.
\<close>

definition ESP_ERROR_CHECK :: "esp_err \<times> world \<Rightarrow> world option" where
  "ESP_ERROR_CHECK r = (case r of (ret, w) \<Rightarrow> if ret = ESP_OK then Some w else None)"

definition js_api_register_all ::
    "platform \<Rightarrow> world \<Rightarrow> ctx_ptr option \<Rightarrow> (esp_err \<times> world) option" where
  "js_api_register_all pf w ctx =
     (if ctx = None \<or> \<not> js_api_initialized w then Some (ESP_ERR_INVALID_ARG, w)
      else
        do {
          w1 \<leftarrow> ESP_ERROR_CHECK (js_rf_api_register pf w ctx);
          w2 \<leftarrow> ESP_ERROR_CHECK (js_gpio_api_register pf w1 ctx);
          w3 \<leftarrow> ESP_ERROR_CHECK (js_ui_api_register pf w2 ctx);
          w4 \<leftarrow> ESP_ERROR_CHECK (js_storage_api_register pf w3 ctx);
          w5 \<leftarrow> ESP_ERROR_CHECK (js_notification_api_register pf w4 ctx);
          Some (ESP_OK, w5)
        })"

section \<open>The sandbox manager (app\_sandbox.c)\<close>

definition sandbox_logf :: "esp_log_level \<Rightarrow> string \<Rightarrow> world \<Rightarrow> world" where
  "sandbox_logf level text w = w\<lparr>sandbox_log := sandbox_log w @ [(level, text)]\<rparr>"

text \<open>The slot that \<^verbatim>\<open>find_sandbox\<close> points to, as its index in the pool.\<close>

definition find_sandbox :: "world \<Rightarrow> string \<Rightarrow> nat option" where
  "find_sandbox w app_id =
     first_index (\<lambda>sb. sb_active sb \<and> sb_app_id sb = app_id) (s_sandboxes w) 0"

text \<open>
  \<open>context\<close> says whether the caller passes a place for the context pointer; the second
  component of the result is the pointer stored there, if one is stored.
\<close>

definition app_sandbox_create ::
    "platform \<Rightarrow> world \<Rightarrow> string option \<Rightarrow> bool \<Rightarrow> (esp_err \<times> ctx_ptr option \<times> world) option" where
  "app_sandbox_create pf w app_id context =
     (case app_id of
        None \<Rightarrow> Some (ESP_ERR_INVALID_ARG, None, w)
      | Some aid \<Rightarrow>
          if \<not> context then Some (ESP_ERR_INVALID_ARG, None, w)
          else
            (let w1 = sandbox_logf ESP_LOG_INFO (''Creating sandbox for app: '' @ aid) w
             in case first_index (\<lambda>sb. \<not> sb_active sb) (s_sandboxes w1) 0 of
                  None \<Rightarrow>
                    Some (ESP_ERR_NO_MEM, None, sandbox_logf ESP_LOG_ERROR ''No free sandbox slots'' w1)
                | Some slot \<Rightarrow>
                    (case mjs_engine_create_context w1 65536 of
                       (None, w2) \<Rightarrow>
                         Some (ESP_ERR_NO_MEM, None,
                               sandbox_logf ESP_LOG_ERROR ''Failed to create JavaScript context'' w2)
                     | (Some js_ctx, w2) \<Rightarrow>
                         do {
                           (ret, w3) \<leftarrow> js_api_register_all pf w2 (Some js_ctx);
                           if ret \<noteq> ESP_OK
                           then Some (ret, None, mjs_engine_destroy_context w3 (Some js_ctx))
                           else
                             (case xTaskGetTickCount w3 of
                                (ticks, w4) \<Rightarrow>
                                  (let sandbox =
                                         \<lparr>sb_app_id = aid,
                                          sb_js_context = Some js_ctx,
                                          sb_memory_limit = 65536,
                                          sb_time_limit = 5000,
                                          sb_start_time = ticks * portTICK_PERIOD_MS pf,
                                          sb_active = True\<rparr>;
                                       w5 = w4\<lparr>s_sandboxes := (s_sandboxes w4)[slot := sandbox],
                                               s_sandbox_count := s_sandbox_count w4 + 1\<rparr>
                                   in Some (ESP_OK, Some js_ctx,
                                            sandbox_logf ESP_LOG_INFO
                                              (''Sandbox created for app: '' @ aid) w5)))
                         })))"

definition cleared_sandbox :: sandbox_t where
  "cleared_sandbox =
     \<lparr>sb_app_id = [], sb_js_context = None, sb_memory_limit = 0, sb_time_limit = 0,
      sb_start_time = 0, sb_active = False\<rparr>"

definition app_sandbox_destroy :: "world \<Rightarrow> string option \<Rightarrow> esp_err \<times> world" where
  "app_sandbox_destroy w app_id =
     (case app_id of
        None \<Rightarrow> (ESP_ERR_INVALID_ARG, w)
      | Some aid \<Rightarrow>
          (let w1 = sandbox_logf ESP_LOG_INFO (''Destroying sandbox for app: '' @ aid) w
           in case find_sandbox w1 aid of
                None \<Rightarrow>
                  (ESP_ERR_NOT_FOUND,
                   sandbox_logf ESP_LOG_WARN (''Sandbox not found for app: '' @ aid) w1)
              | Some i \<Rightarrow>
                  (let w2 = (case sb_js_context (s_sandboxes w1 ! i) of
                               None \<Rightarrow> w1
                             | Some p \<Rightarrow> mjs_engine_destroy_context w1 (Some p));
                       w3 = w2\<lparr>s_sandboxes := (s_sandboxes w2)[i := cleared_sandbox],
                               s_sandbox_count := s_sandbox_count w2 - 1\<rparr>
                   in (ESP_OK,
                       sandbox_logf ESP_LOG_INFO (''Sandbox destroyed for app: '' @ aid) w3))))"

section \<open>The installer (app\_installer.c)\<close>

text \<open>The copy loop: blocks of at most 512 bytes, until a read delivers nothing.\<close>

function copy_loop :: "string \<Rightarrow> string \<Rightarrow> filesys \<Rightarrow> filesys" where
  "copy_loop src dst_path f =
     (if length (take 512 src) > 0
      then copy_loop (drop 512 src) dst_path (fwrite f dst_path (take 512 src))
      else f)"
  by pat_completeness auto
termination
  by (relation "measure (\<lambda>(src, dst_path, f). length src)") auto

declare copy_loop.simps [simp del]

definition quoted :: "string \<Rightarrow> string" where
  "quoted s = CHR 0x22 # s @ [CHR 0x22]"

text \<open>The lines that the \<^verbatim>\<open>fprintf\<close> calls write into manifest.json, in their order.\<close>

definition basic_manifest_lines :: "string list" where
  "basic_manifest_lines =
     [''{'' @ [CHR 0x0A],
      ''  '' @ quoted ''name'' @ '': '' @ quoted ''Sample App'' @ '','' @ [CHR 0x0A],
      ''  '' @ quoted ''version'' @ '': '' @ quoted ''1.0.0'' @ '','' @ [CHR 0x0A],
      ''  '' @ quoted ''author'' @ '': '' @ quoted ''Unknown'' @ '','' @ [CHR 0x0A],
      ''  '' @ quoted ''entry_point'' @ '': '' @ quoted ''index.js'' @ '','' @ [CHR 0x0A],
      ''  '' @ quoted ''permissions'' @ '': '' @ quoted ''rf.receive,ui.create'' @ [CHR 0x0A],
      ''}'' @ [CHR 0x0A]]"

text \<open>
  The package is one file; its content becomes index.js of the new directory. The file
  manifest.json is then opened for writing and filled with the basic manifest, whatever
  the package holds.
\<close>

definition app_installer_extract_package ::
    "filesys \<Rightarrow> string option \<Rightarrow> string option \<Rightarrow> esp_err \<times> filesys" where
  "app_installer_extract_package f package_path extract_path =
     (case (package_path, extract_path) of
        (Some pkg, Some dir) \<Rightarrow>
          (case mkdir f dir of
             None \<Rightarrow> (ESP_FAIL, f)
           | Some f1 \<Rightarrow>
               (case fopen_r f1 pkg of
                  None \<Rightarrow> (ESP_ERR_NOT_FOUND, f1)
                | Some src \<Rightarrow>
                    (let dst_path = snprintf 256 (dir @ ''/index.js'')
                     in case fopen_w f1 dst_path of
                          None \<Rightarrow> (ESP_FAIL, f1)
                        | Some f2 \<Rightarrow>
                            (let f3 = copy_loop src dst_path f2;
                                 dst_path = snprintf 256 (dir @ ''/manifest.json'');
                                 f4 = (case fopen_w f3 dst_path of
                                         None \<Rightarrow> f3
                                       | Some f' \<Rightarrow>
                                           fold (\<lambda>line g. fwrite g dst_path line)
                                             basic_manifest_lines f')
                             in (ESP_OK, f4)))))
      | _ \<Rightarrow> (ESP_ERR_INVALID_ARG, f))"

section \<open>The app manager (app\_manager.c)\<close>

text \<open>
  \<open>app_manager_install w package_path app_id\<close>: \<open>app_id\<close> says whether the caller passes a
  buffer for the new id; the second component of the result is the id written into it,
  \<open>None\<close> as long as nothing is written.
\<close>

definition app_manager_install ::
    "world \<Rightarrow> string option \<Rightarrow> bool \<Rightarrow> esp_err \<times> string option \<times> world" where
  "app_manager_install w package_path app_id =
     (case package_path of
        None \<Rightarrow> (ESP_ERR_INVALID_ARG, None, w)
      | Some pkg \<Rightarrow>
          if \<not> app_id then (ESP_ERR_INVALID_ARG, None, w)
          else if length (s_installed_apps w) \<ge> MAX_INSTALLED_APPS
          then (ESP_ERR_NO_MEM, None, w)
          else
            (case esp_random w of
               (r, w1) \<Rightarrow>
                 (let new_id = snprintf 32 (''app_'' @ hex8 r);
                      install_path = snprintf MAX_APP_PATH_LEN (''/apps/'' @ new_id)
                  in case app_installer_extract_package (fs w1) (Some pkg) (Some install_path) of
                       (ret, f1) \<Rightarrow>
                         (let w2 = w1\<lparr>fs := f1\<rparr>
                          in if ret \<noteq> ESP_OK then (ret, Some new_id, w2)
                             else
                               (let manifest_path =
                                      snprintf MAX_APP_PATH_LEN (install_path @ ''/manifest.json'')
                                in case mjs_engine_load_manifest (fs w2) (Some manifest_path) True of
                                     Inl ret \<Rightarrow> (ret, Some new_id, w2)
                                   | Inr manifest \<Rightarrow>
                                       (case heap_alloc w2 of
                                          (strdup_ok, w3) \<Rightarrow>
                                            (let app =
                                                   \<lparr>ai_id = new_id,
                                                    ai_name = mf_name manifest,
                                                    ai_version = mf_version manifest,
                                                    ai_author = mf_author manifest,
                                                    ai_entry_point = mf_entry_point manifest,
                                                    ai_install_path = install_path,
                                                    ai_state = APP_STATE_STOPPED,
                                                    ai_js_context = None,
                                                    ai_memory_usage = 0,
                                                    ai_cpu_time = 0,
                                                    ai_is_system_app = False,
                                                    ai_permissions =
                                                      app_permissions_parse_string strdup_ok
                                                        (Some (mf_permissions manifest))\<rparr>
                                             in (ESP_OK, Some new_id,
                                                 w3\<lparr>s_installed_apps :=
                                                       s_installed_apps w3 @ [app]\<rparr>))))))))"

definition set_app_js_context :: "nat \<Rightarrow> ctx_ptr option \<Rightarrow> world \<Rightarrow> world" where
  "set_app_js_context i ctx w =
     w\<lparr>s_installed_apps :=
         (s_installed_apps w)[i := (s_installed_apps w ! i)\<lparr>ai_js_context := ctx\<rparr>]\<rparr>"

definition set_app_state :: "nat \<Rightarrow> app_state_t \<Rightarrow> world \<Rightarrow> world" where
  "set_app_state i st w =
     w\<lparr>s_installed_apps :=
         (s_installed_apps w)[i := (s_installed_apps w ! i)\<lparr>ai_state := st\<rparr>]\<rparr>"

text \<open>
  \<open>None\<close> is the abort of the firmware by an \<^verbatim>\<open>ESP_ERROR_CHECK\<close> on the way.
\<close>

definition app_manager_start_app ::
    "platform \<Rightarrow> world \<Rightarrow> string option \<Rightarrow> (esp_err \<times> world) option" where
  "app_manager_start_app pf w app_id =
     (case app_id of
        None \<Rightarrow> Some (ESP_ERR_INVALID_ARG, w)
      | Some aid \<Rightarrow>
          (case first_index (\<lambda>a. ai_id a = aid) (s_installed_apps w) 0 of
             None \<Rightarrow> Some (ESP_ERR_NOT_FOUND, w)
           | Some i \<Rightarrow>
               if ai_state (s_installed_apps w ! i) = APP_STATE_RUNNING then Some (ESP_OK, w)
               else
                 do {
                   (ret, ctx, w1) \<leftarrow> app_sandbox_create pf w (Some aid) True;
                   if ret \<noteq> ESP_OK then Some (ret, w1)
                   else
                     (let w2 = set_app_js_context i ctx w1;
                          app = s_installed_apps w2 ! i;
                          entry_file = snprintf MAX_APP_PATH_LEN
                                         (ai_install_path app @ ''/'' @ ai_entry_point app)
                      in case mjs_engine_load_file w2 ctx (Some entry_file) of
                           (ret, w3) \<Rightarrow>
                             if ret \<noteq> ESP_OK
                             then
                               (case app_sandbox_destroy w3 (Some aid) of
                                  (ignored, w4) \<Rightarrow> Some (ret, set_app_js_context i None w4))
                             else
                               (case mjs_engine_execute pf w3 ctx of
                                  (exec_result, w4) \<Rightarrow>
                                    if exec_result \<noteq> JS_EXEC_OK
                                    then
                                      (case app_sandbox_destroy w4 (Some aid) of
                                         (ignored, w5) \<Rightarrow>
                                           Some (ESP_FAIL, set_app_js_context i None w5))
                                    else
                                      Some (ESP_OK,
                                            (set_app_state i APP_STATE_RUNNING w4)
                                              \<lparr>s_current_app_id := aid\<rparr>)))
                 }))"

text \<open>
  \<open>apps\<close> is the caller's array (\<open>None\<close> for \<^verbatim>\<open>NULL\<close>), \<open>num_apps\<close> says whether a place for
  the count is passed; the result is the return code, the array and the count stored.
\<close>

definition app_manager_list_apps ::
    "world \<Rightarrow> app_info_t list option \<Rightarrow> nat \<Rightarrow> bool
       \<Rightarrow> esp_err \<times> app_info_t list option \<times> nat option" where
  "app_manager_list_apps w apps max_apps num_apps =
     (case apps of
        None \<Rightarrow> (ESP_ERR_INVALID_ARG, None, None)
      | Some buf \<Rightarrow>
          if \<not> num_apps then (ESP_ERR_INVALID_ARG, Some buf, None)
          else
            (let count = (if length (s_installed_apps w) > max_apps then max_apps
                          else length (s_installed_apps w))
             in (ESP_OK, Some (take count (s_installed_apps w) @ drop count buf), Some count)))"

fun check_permission_loop :: "app_info_t list \<Rightarrow> string \<Rightarrow> u32 \<Rightarrow> bool" where
  "check_permission_loop [] app_id permission = False"
| "check_permission_loop (a # apps) app_id permission =
     (if ai_id a = app_id then (ai_permissions a AND permission) \<noteq> 0
      else check_permission_loop apps app_id permission)"

definition app_manager_check_permission :: "world \<Rightarrow> string option \<Rightarrow> u32 \<Rightarrow> bool" where
  "app_manager_check_permission w app_id permission =
     (case app_id of
        None \<Rightarrow> False
      | Some aid \<Rightarrow> check_permission_loop (s_installed_apps w) aid permission)"

section \<open>Concrete states\<close>

text \<open>
  The firmware after its initialisation: an empty registry, an empty pool, an engine
  and a bridge that are initialised, a file system with the directory of the apps and
  a directory for packages, an allocator that always succeeds and a radio that answers
  \<open>ESP_OK\<close>. The package is one file whose text is a manifest that declares the app
  ``Tester''.
\<close>

definition tester_package :: string where
  "tester_package =
     ''{'' @ [CHR 0x0A]
     @ ''  '' @ quoted ''name'' @ '': '' @ quoted ''Tester'' @ '','' @ [CHR 0x0A]
     @ ''  '' @ quoted ''version'' @ '': '' @ quoted ''0.1'' @ '','' @ [CHR 0x0A]
     @ ''  '' @ quoted ''entry_point'' @ '': '' @ quoted ''index.js'' @ '','' @ [CHR 0x0A]
     @ ''  '' @ quoted ''permissions'' @ '': '' @ quoted ''gpio.read,rf.transmit'' @ [CHR 0x0A]
     @ ''}'' @ [CHR 0x0A]"

definition blank_context :: js_context_t where
  "blank_context =
     \<lparr>ctx_mjs = None, ctx_filename = None, ctx_code = None, ctx_is_running = False,
      ctx_memory_limit = 0, ctx_execution_time_limit_ms = 0\<rparr>"

definition boot_world :: world where
  "boot_world =
     \<lparr>s_installed_apps = [],
      s_current_app_id = [],
      s_sandboxes = replicate 8 cleared_sandbox,
      s_sandbox_count = 0,
      sandbox_log = [],
      s_contexts = replicate 8 None,
      s_context_count = 0,
      mjs_engine_initialized = True,
      s_error_callback = False,
      error_callback_calls = [],
      js_api_initialized = True,
      ctx_heap = (\<lambda>p. blank_context),
      next_ptr = 0x3ffb2000,
      alloc_ok = (\<lambda>n. True),
      alloc_count = 0,
      random_words = (\<lambda>n. 0x1a2b3c4d),
      random_count = 0,
      tick_counts = (\<lambda>n. 100),
      tick_reads = 0,
      fs = \<lparr>fs_dirs = [[], ''/apps'', ''/sdcard''],
            fs_files = [''/sdcard/tester.pkg'' \<mapsto> tester_package]\<rparr>,
      cc1101_result = ESP_OK,
      cc1101_transmit_calls = []\<rparr>"

text \<open>A platform: ticks of 10 ms, addresses in the flash-mapped code region, and an
  interpreter that leaves the engine as it is.\<close>

definition test_platform :: platform where
  "test_platform =
     \<lparr>portTICK_PERIOD_MS = 10,
      address_of = (\<lambda>name. 0x400d0000 + 4 * of_nat (foldl (\<lambda>h c. (31 * h + of_char c) mod 4096) 7 name)),
      mjs_exec = (\<lambda>m code. (MJS_UNDEFINED, m, []))\<rparr>"

text \<open>An NVS partition that is initialised, empty and does not refuse any call.\<close>

definition fresh_nvs :: nvs_flash where
  "fresh_nvs =
     \<lparr>nvs_entries = Map.empty, nvs_ns_exists = False, nvs_open_fault = ESP_OK,
      nvs_key_fault = (\<lambda>key. ESP_OK), nvs_write_fault = ESP_OK, nvs_commit_fault = ESP_OK\<rparr>"


text \<open>
  The state after the package has been installed, and the state after the new app has
  been started; \<open>first_install\<close> and \<open>first_start\<close> below show that they are what
  \<open>app_manager_install\<close> makes of the boot state and \<open>app_manager_start_app\<close> of the
  state after the install.
\<close>

definition installed_world :: world where
  "installed_world =
     boot_world
       \<lparr>s_installed_apps :=
          [\<lparr>ai_id = ''app_1a2b3c4d'', ai_name = ''Sample App'', ai_version = ''1.0.0'',
            ai_author = ''Unknown'', ai_entry_point = ''index.js'',
            ai_install_path = ''/apps/app_1a2b3c4d'', ai_state = APP_STATE_STOPPED,
            ai_js_context = None, ai_memory_usage = 0, ai_cpu_time = 0,
            ai_is_system_app = False,
            ai_permissions = APP_PERM_RF_RECEIVE OR APP_PERM_UI_CREATE\<rparr>],
        alloc_count := 1,
        random_count := 1,
        fs := \<lparr>fs_dirs = [''/apps/app_1a2b3c4d'', [], ''/apps'', ''/sdcard''],
               fs_files = [''/sdcard/tester.pkg'' \<mapsto> tester_package,
                           ''/apps/app_1a2b3c4d/index.js'' \<mapsto> tester_package,
                           ''/apps/app_1a2b3c4d/manifest.json''
                             \<mapsto> concat basic_manifest_lines]\<rparr>\<rparr>"

definition started_mjs :: mjs where
  "started_mjs =
     fold (\<lambda>(name, func) m. mjs_set_ffi_func m name (address_of test_platform func))
       (rf_api_functions @ gpio_api_functions @ ui_api_functions
        @ storage_api_functions @ notification_api_functions)
       (mjs_set_error_handler mjs_create)"

definition started_world :: world where
  "started_world =
     installed_world
       \<lparr>s_installed_apps :=
          [\<lparr>ai_id = ''app_1a2b3c4d'', ai_name = ''Sample App'', ai_version = ''1.0.0'',
            ai_author = ''Unknown'', ai_entry_point = ''index.js'',
            ai_install_path = ''/apps/app_1a2b3c4d'', ai_state = APP_STATE_RUNNING,
            ai_js_context = Some 0x3ffb2000, ai_memory_usage = 0, ai_cpu_time = 0,
            ai_is_system_app = False,
            ai_permissions = APP_PERM_RF_RECEIVE OR APP_PERM_UI_CREATE\<rparr>],
        s_current_app_id := ''app_1a2b3c4d'',
        s_sandboxes :=
          \<lparr>sb_app_id = ''app_1a2b3c4d'', sb_js_context = Some 0x3ffb2000, sb_memory_limit = 65536,
           sb_time_limit = 5000, sb_start_time = 1000, sb_active = True\<rparr>
          # replicate 7 cleared_sandbox,
        s_sandbox_count := 1,
        sandbox_log :=
          [(ESP_LOG_INFO, ''Creating sandbox for app: app_1a2b3c4d''),
           (ESP_LOG_INFO, ''Sandbox created for app: app_1a2b3c4d'')],
        s_contexts := Some 0x3ffb2000 # replicate 7 None,
        s_context_count := 1,
        ctx_heap :=
          (\<lambda>p. blank_context)
            (0x3ffb2000 := \<lparr>ctx_mjs = Some started_mjs,
                   ctx_filename = Some ''/apps/app_1a2b3c4d/index.js'',
                   ctx_code = Some tester_package,
                   ctx_is_running = False,
                   ctx_memory_limit = 65536,
                   ctx_execution_time_limit_ms = 5000\<rparr>),
        next_ptr := 0x3ffb2001,
        alloc_count := 4,
        tick_reads := 3\<rparr>"

text \<open>A registry that is full: sixteen records.\<close>

definition full_world :: world where
  "full_world =
     boot_world
       \<lparr>s_installed_apps :=
          map (\<lambda>i. \<lparr>ai_id = ''app_0000000'' @ [hex_digit i], ai_name = ''Sample App'',
                     ai_version = ''1.0.0'', ai_author = ''Unknown'',
                     ai_entry_point = ''index.js'',
                     ai_install_path = ''/apps/app_0000000'' @ [hex_digit i],
                     ai_state = APP_STATE_STOPPED, ai_js_context = None,
                     ai_memory_usage = 0, ai_cpu_time = 0, ai_is_system_app = False,
                     ai_permissions = APP_PERM_RF_RECEIVE OR APP_PERM_UI_CREATE\<rparr>)
            [0 ..< 16]\<rparr>"

text \<open>
  The started state with a tick counter that advances by 600 ticks from one reading to
  the next: 6000 ms between two readings, more than the budget of 5000 ms.
\<close>

definition slow_world :: world where
  "slow_world = started_world\<lparr>tick_counts := (\<lambda>n. 100 + 600 * of_nat n)\<rparr>"

section \<open>Notions used in the statements\<close>

text \<open>
  A file system is well formed when every directory but the root lies in a directory.
\<close>

definition fs_wf :: "filesys \<Rightarrow> bool" where
  "fs_wf f \<longleftrightarrow> (\<forall>d \<in> set (fs_dirs f). d = [] \<or> parent_dir d \<in> set (fs_dirs f))"

text \<open>
  What \<open>mjs_engine_load_manifest\<close> reads from the basic manifest of the installer, and
  the registry record that \<open>app_manager_install\<close> makes of it for a new id; \<open>strdup_ok\<close>
  says whether the permission parser could allocate its working copy.
\<close>

definition basic_manifest :: js_app_manifest_t where
  "basic_manifest =
     \<lparr>mf_name = ''Sample App'', mf_version = ''1.0.0'', mf_author = ''Unknown'',
      mf_description = [], mf_entry_point = ''index.js'',
      mf_permissions = ''rf.receive,ui.create'', mf_memory_limit = DEFAULT_MEMORY_LIMIT,
      mf_has_icon = False\<rparr>"

definition basic_app_record :: "string \<Rightarrow> bool \<Rightarrow> app_info_t" where
  "basic_app_record new_id strdup_ok =
     \<lparr>ai_id = new_id, ai_name = ''Sample App'', ai_version = ''1.0.0'',
      ai_author = ''Unknown'', ai_entry_point = ''index.js'',
      ai_install_path = ''/apps/'' @ new_id, ai_state = APP_STATE_STOPPED,
      ai_js_context = None, ai_memory_usage = 0, ai_cpu_time = 0, ai_is_system_app = False,
      ai_permissions = (if strdup_ok then APP_PERM_RF_RECEIVE OR APP_PERM_UI_CREATE else 0)\<rparr>"


section \<open>Verified properties\<close>

subsection \<open>Permission store\<close>

text \<open>
  C3. For a non-null app id, \<open>app_permissions_check\<close> answers true exactly when the
  bitset that \<open>app_permissions_load\<close> delivers for that id has at least one bit in common
  with the required bits: any one required bit suffices, not all of them.
\<close>

theorem check_iff_load_any_bit:
  "app_permissions_check nvs (Some app_id) required_bits \<longleftrightarrow>
     (snd (app_permissions_load nvs (Some app_id) (Some 0)) AND required_bits) \<noteq> 0"
  by (auto simp: app_permissions_check_def app_permissions_load_def nvs_get_u32_def
      split: prod.splits option.splits if_splits)




























subsection \<open>The concrete states are reached\<close>

lemma replicate8: "replicate 8 x = [x, x, x, x, x, x, x, x]"
  by (simp add: eval_nat_numeral)

lemma replicate7: "replicate 7 x = [x, x, x, x, x, x, x]"
  by (simp add: eval_nat_numeral)

lemmas install_eval_defs =
  app_manager_install_def boot_world_def esp_random_def heap_alloc_def snprintf_def hex8_def
  hex_digit_def MAX_INSTALLED_APPS_def MAX_APP_PATH_LEN_def app_installer_extract_package_def
  mkdir_def parent_dir_def fopen_r_def fopen_w_def fwrite_def copy_loop.simps tester_package_def
  quoted_def basic_manifest_lines_def mjs_engine_load_manifest_def read_manifest_lines.simps
  fgets_def parse_manifest_line_def find_char_def empty_manifest_def Let_def
  app_permissions_parse_string_def parse_tokens.simps strtok_def trim_token_def
  permission_map_def APP_PERM_defs DEFAULT_MEMORY_LIMIT_def

lemmas start_eval_defs =
  app_manager_start_app_def app_sandbox_create_def sandbox_logf_def mjs_engine_create_context_def
  js_api_register_all_def ESP_ERROR_CHECK_def js_rf_api_register_def js_gpio_api_register_def
  js_ui_api_register_def js_storage_api_register_def js_notification_api_register_def
  api_register_def rf_api_functions_def gpio_api_functions_def ui_api_functions_def
  storage_api_functions_def notification_api_functions_def mjs_set_ffi_func_def
  mjs_set_global_def mjs_create_def mjs_set_error_handler_def xTaskGetTickCount_def
  mjs_error_handler_def set_app_js_context_def set_app_state_def mjs_engine_load_file_def mjs_engine_execute_def
  mjs_is_error_def test_platform_def cleared_sandbox_def blank_context_def
  DEFAULT_EXEC_TIME_LIMIT_def heap_alloc_def snprintf_def MAX_APP_PATH_LEN_def fopen_r_def
  tester_package_def quoted_def DEFAULT_MEMORY_LIMIT_def MJS_UNDEFINED_def MJS_NULL_def

lemma first_install:
  "app_manager_install boot_world (Some ''/sdcard/tester.pkg'') True
     = (ESP_OK, Some ''app_1a2b3c4d'', installed_world)"
  by (simp add: installed_world_def install_eval_defs)

lemma first_start:
  "app_manager_start_app test_platform installed_world (Some ''app_1a2b3c4d'')
     = Some (ESP_OK, started_world)"
  by (simp add: started_world_def started_mjs_def installed_world_def boot_world_def
      start_eval_defs replicate8 replicate7 APP_PERM_defs)

lemma started_registry:
  "find (\<lambda>a. ai_id a = ''app_1a2b3c4d'') (s_installed_apps started_world)
     = Some \<lparr>ai_id = ''app_1a2b3c4d'', ai_name = ''Sample App'', ai_version = ''1.0.0'',
            ai_author = ''Unknown'', ai_entry_point = ''index.js'',
            ai_install_path = ''/apps/app_1a2b3c4d'', ai_state = APP_STATE_RUNNING,
            ai_js_context = Some 0x3ffb2000, ai_memory_usage = 0, ai_cpu_time = 0,
            ai_is_system_app = False,
            ai_permissions = APP_PERM_RF_RECEIVE OR APP_PERM_UI_CREATE\<rparr>"
  by (simp add: started_world_def)

lemma started_context:
  "ctx_code (ctx_heap started_world 0x3ffb2000) = Some tester_package"
  "ctx_mjs (ctx_heap started_world 0x3ffb2000) = Some started_mjs"
  "ctx_execution_time_limit_ms (ctx_heap started_world 0x3ffb2000) = 5000"
  by (simp_all add: started_world_def)

lemma tester_package_manifest:
  "mf_name (read_manifest_lines tester_package empty_manifest) = ''Tester''"
  "mf_version (read_manifest_lines tester_package empty_manifest) = ''0.1''"
  "mf_entry_point (read_manifest_lines tester_package empty_manifest) = ''index.js''"
  "mf_permissions (read_manifest_lines tester_package empty_manifest) = ''gpio.read,rf.transmit''"
  by (simp_all add: tester_package_def quoted_def read_manifest_lines.simps fgets_def
         parse_manifest_line_def find_char_def empty_manifest_def Let_def)

subsection \<open>Engine\<close>

lemma error_handlers_keep:
  "ctx_mjs (ctx_heap (fold (\<lambda>msg w. mjs_error_handler w p msg) errors w) p)
     = ctx_mjs (ctx_heap w p)"
  "ctx_execution_time_limit_ms (ctx_heap (fold (\<lambda>msg w. mjs_error_handler w p msg) errors w) p)
     = ctx_execution_time_limit_ms (ctx_heap w p)"
  "tick_counts (fold (\<lambda>msg w. mjs_error_handler w p msg) errors w) = tick_counts w"
  "tick_reads (fold (\<lambda>msg w. mjs_error_handler w p msg) errors w) = tick_reads w"
  by (induction errors arbitrary: w) (simp_all add: mjs_error_handler_def Let_def)

lemma execute_unfold:
  assumes "ctx_code (ctx_heap w p) = Some code" and "ctx_mjs (ctx_heap w p) = Some m"
  shows "fst (mjs_engine_execute pf w (Some p)) =
           (if tick_counts w (Suc (tick_reads w)) * portTICK_PERIOD_MS pf
                 - tick_counts w (tick_reads w) * portTICK_PERIOD_MS pf
               > ctx_execution_time_limit_ms (ctx_heap w p)
            then JS_EXEC_TIMEOUT else JS_EXEC_OK)"
    and "ctx_mjs (ctx_heap (snd (mjs_engine_execute pf w (Some p))) p)
           = Some (fst (snd (mjs_exec pf m code)))"
    and "\<not> ctx_is_running (ctx_heap (snd (mjs_engine_execute pf w (Some p))) p)"
  using assms
  by (simp_all add: mjs_engine_execute_def xTaskGetTickCount_def mjs_is_error_def Let_def
      error_handlers_keep split: prod.splits)

text \<open>
  C10. \<open>mjs_is_error\<close> is false for every value; so for a context with an engine
  instance and loaded code, \<open>mjs_engine_execute\<close> returns \<open>JS_EXEC_OK\<close> or
  \<open>JS_EXEC_TIMEOUT\<close>, never \<open>JS_EXEC_ERROR\<close>.
\<close>

theorem execute_never_error:
  assumes "ctx_code (ctx_heap w p) = Some code" and "ctx_mjs (ctx_heap w p) = Some m"
  shows "(\<forall>v. \<not> mjs_is_error v)
       \<and> (fst (mjs_engine_execute pf w (Some p)) = JS_EXEC_OK
          \<or> fst (mjs_engine_execute pf w (Some p)) = JS_EXEC_TIMEOUT)
       \<and> fst (mjs_engine_execute pf w (Some p)) \<noteq> JS_EXEC_ERROR"
  by (simp add: execute_unfold(1) [OF assms] mjs_is_error_def)

theorem execute_never_error_witness:
  "ctx_code (ctx_heap started_world 0x3ffb2000) = Some tester_package
   \<and> ctx_mjs (ctx_heap started_world 0x3ffb2000) = Some started_mjs
   \<and> fst (mjs_engine_execute test_platform started_world (Some 0x3ffb2000)) = JS_EXEC_OK
   \<and> fst (mjs_engine_execute test_platform started_world (Some 0x3ffb2000)) \<noteq> JS_EXEC_ERROR"
proof -
  have "fst (mjs_engine_execute test_platform started_world (Some 0x3ffb2000)) \<noteq> JS_EXEC_TIMEOUT"
    by (simp add: execute_unfold(1) [OF started_context(1,2)] started_context(3))
       (simp add: started_world_def installed_world_def boot_world_def test_platform_def)
  with execute_never_error [OF started_context(1,2), of test_platform] started_context
  show ?thesis by blast
qed

text \<open>
  C2. For a context with loaded code (and its engine instance): when the duration that
  \<open>mjs_engine_execute\<close> measures, the difference of the tick readings after and before
  the evaluation in milliseconds, exceeds \<open>execution_time_limit_ms\<close>, the result is
  \<open>JS_EXEC_TIMEOUT\<close>; the context then holds the engine instance as the complete
  evaluation has left it, and it is no longer marked as running.
\<close>

theorem execute_timeout_after_completion:
  assumes "ctx_code (ctx_heap w p) = Some code" and "ctx_mjs (ctx_heap w p) = Some m"
    and "tick_counts w (Suc (tick_reads w)) * portTICK_PERIOD_MS pf
           - tick_counts w (tick_reads w) * portTICK_PERIOD_MS pf
         > ctx_execution_time_limit_ms (ctx_heap w p)"
  shows "fst (mjs_engine_execute pf w (Some p)) = JS_EXEC_TIMEOUT
       \<and> ctx_mjs (ctx_heap (snd (mjs_engine_execute pf w (Some p))) p)
           = Some (fst (snd (mjs_exec pf m code)))
       \<and> \<not> ctx_is_running (ctx_heap (snd (mjs_engine_execute pf w (Some p))) p)"
  using assms(3) by (simp add: execute_unfold [OF assms(1,2)])

theorem execute_timeout_after_completion_witness:
  "ctx_code (ctx_heap slow_world 0x3ffb2000) = Some tester_package
   \<and> ctx_mjs (ctx_heap slow_world 0x3ffb2000) = Some started_mjs
   \<and> tick_counts slow_world (Suc (tick_reads slow_world)) * portTICK_PERIOD_MS test_platform
        - tick_counts slow_world (tick_reads slow_world) * portTICK_PERIOD_MS test_platform
       > ctx_execution_time_limit_ms (ctx_heap slow_world 0x3ffb2000)
   \<and> fst (mjs_engine_execute test_platform slow_world (Some 0x3ffb2000)) = JS_EXEC_TIMEOUT
   \<and> ctx_mjs (ctx_heap (snd (mjs_engine_execute test_platform slow_world (Some 0x3ffb2000))) 0x3ffb2000)
       = Some (fst (snd (mjs_exec test_platform started_mjs tester_package)))"
proof -
  have c: "ctx_code (ctx_heap slow_world 0x3ffb2000) = Some tester_package"
    and m: "ctx_mjs (ctx_heap slow_world 0x3ffb2000) = Some started_mjs"
    by (simp_all add: slow_world_def started_context)
  have t: "tick_counts slow_world (Suc (tick_reads slow_world)) * portTICK_PERIOD_MS test_platform
        - tick_counts slow_world (tick_reads slow_world) * portTICK_PERIOD_MS test_platform
       > ctx_execution_time_limit_ms (ctx_heap slow_world 0x3ffb2000)"
    by (simp add: slow_world_def started_context)
       (simp add: started_world_def test_platform_def)
  from execute_timeout_after_completion [OF c m t] c m t show ?thesis by blast
qed

subsection \<open>Bridge\<close>

lemma mjs_mk_string_is_string: "mjs_is_string (mjs_mk_string a)"
proof -
  have "(ucast a AND 0xFFFFFFFF) AND (0xF000000000000000 :: mjs_val_t)
          = ucast a AND (0xFFFFFFFF AND 0xF000000000000000)"
    by (simp only: and.assoc)
  also have "\<dots> = 0" by simp
  finally show ?thesis
    by (simp add: mjs_is_string_def mjs_mk_string_def bit.conj_disj_distrib2)
qed

text \<open>
  C1 as the code has it. The bridged \<open>rf.transmit\<close> asks for no permission, and the
  permission hook of the engine grants whatever it is asked: in every state, whatever
  the permission bits of the app that owns the context, the function calls the radio's
  transmit once, with the test pattern; it returns an in-script error value (a string
  value) when the radio reports a failure, and \<open>undefined\<close> otherwise.
\<close>

theorem rf_transmit_unchecked:
  "cc1101_transmit_calls (snd (js_rf_transmit pf w (Some m)))
     = cc1101_transmit_calls w @ [[0x12, 0x34, 0x56, 0x78, 0xAB, 0xCD, 0xEF]]
   \<and> fst (js_rf_transmit pf w (Some m))
       = (if cc1101_result w = ESP_OK then MJS_UNDEFINED
          else js_make_error pf (Some m) (Some ''Failed to transmit data''))
   \<and> mjs_is_string (js_make_error pf (Some m) (Some ''Failed to transmit data''))
   \<and> \<not> mjs_is_string MJS_UNDEFINED
   \<and> mjs_engine_check_permission (Some p) (Some permission)"
  by (simp add: js_rf_transmit_def cc1101_transmit_def js_make_error_def Let_def
      mjs_mk_string_is_string mjs_engine_check_permission_def)
     (simp add: mjs_is_string_def MJS_UNDEFINED_def)

text \<open>
  C1 as the claim states it fails. In the started state the app that owns the context
  lacks the bit \<open>APP_PERM_RF_TRANSMIT\<close>, for the registry as for the permission store;
  the name \<open>rf.transmit\<close> of its engine instance is bound to \<open>js_rf_transmit\<close>. The call
  of that function returns \<open>undefined\<close>, which is no error value, and the radio, which
  had recorded no call, has recorded one.
\<close>

theorem rf_transmit_without_permission:
  "map ai_js_context (s_installed_apps started_world) = [Some 0x3ffb2000]
   \<and> ctx_mjs (ctx_heap started_world 0x3ffb2000) = Some started_mjs
   \<and> mjs_get_global started_mjs ''rf.transmit''
       = 0x2000000000000000 OR ucast (address_of test_platform ''js_rf_transmit'')
   \<and> \<not> app_manager_check_permission started_world (Some ''app_1a2b3c4d'') APP_PERM_RF_TRANSMIT
   \<and> \<not> app_permissions_check fresh_nvs (Some ''app_1a2b3c4d'') APP_PERM_RF_TRANSMIT
   \<and> cc1101_transmit_calls started_world = []
   \<and> fst (js_rf_transmit test_platform started_world (Some started_mjs)) = MJS_UNDEFINED
   \<and> \<not> mjs_is_string MJS_UNDEFINED
   \<and> MJS_UNDEFINED \<noteq> MJS_NULL
   \<and> cc1101_transmit_calls (snd (js_rf_transmit test_platform started_world (Some started_mjs)))
       = [[0x12, 0x34, 0x56, 0x78, 0xAB, 0xCD, 0xEF]]"
proof -
  have "mjs_get_global started_mjs ''rf.transmit''
       = 0x2000000000000000 OR ucast (address_of test_platform ''js_rf_transmit'')"
    by (simp add: started_mjs_def mjs_get_global_def rf_api_functions_def gpio_api_functions_def
        ui_api_functions_def storage_api_functions_def notification_api_functions_def
        mjs_set_ffi_func_def mjs_set_global_def mjs_create_def mjs_set_error_handler_def
        test_platform_def MJS_NULL_def)
  moreover have "\<not> app_permissions_check fresh_nvs (Some ''app_1a2b3c4d'') APP_PERM_RF_TRANSMIT"
    by (simp add: app_permissions_check_def app_permissions_load_def nvs_open_def fresh_nvs_def)
  moreover have "\<not> app_manager_check_permission started_world (Some ''app_1a2b3c4d'') APP_PERM_RF_TRANSMIT"
    by (simp add: app_manager_check_permission_def started_world_def APP_PERM_defs)
  moreover have "cc1101_transmit_calls started_world = []" "cc1101_result started_world = ESP_OK"
    "map ai_js_context (s_installed_apps started_world) = [Some 0x3ffb2000]"
    by (simp_all add: started_world_def installed_world_def boot_world_def)
  moreover have "\<not> mjs_is_string MJS_UNDEFINED" "MJS_UNDEFINED \<noteq> MJS_NULL"
    by (simp_all add: mjs_is_string_def MJS_UNDEFINED_def MJS_NULL_def)
  ultimately show ?thesis
    by (simp add: started_context js_rf_transmit_def cc1101_transmit_def Let_def)
qed

subsection \<open>Sandbox manager and app manager\<close>

lemma first_index_None:
  "first_index P xs i = None \<longleftrightarrow> (\<forall>x \<in> set xs. \<not> P x)"
  by (induction xs arbitrary: i) auto

lemma first_index_find:
  "find P xs = Some a \<Longrightarrow> \<exists>j. first_index P xs i = Some (i + j) \<and> j < length xs \<and> xs ! j = a"
proof (induction xs arbitrary: i)
  case Nil
  then show ?case by simp
next
  case (Cons x xs)
  show ?case
  proof (cases "P x")
    case True
    with Cons.prems show ?thesis by (intro exI [of _ 0]) simp
  next
    case False
    with Cons.prems have "find P xs = Some a" by simp
    from Cons.IH [OF this, of "Suc i"] obtain j where
      "first_index P xs (Suc i) = Some (Suc i + j)" "j < length xs" "xs ! j = a" by blast
    with False show ?thesis by (intro exI [of _ "Suc j"]) simp
  qed
qed

text \<open>
  C9 as the code has it. When no active slot of the pool belongs to the app,
  \<open>app_sandbox_destroy\<close> reports \<open>ESP_ERR_NOT_FOUND\<close>; it writes an info line and the
  warning to the log and changes nothing else: every slot of the pool, the sandbox count
  and the contexts are as before.
\<close>

theorem destroy_without_sandbox:
  assumes "\<forall>sb \<in> set (s_sandboxes w). \<not> (sb_active sb \<and> sb_app_id sb = app_id)"
  shows "app_sandbox_destroy w (Some app_id) =
           (ESP_ERR_NOT_FOUND,
            w\<lparr>sandbox_log := sandbox_log w
                 @ [(ESP_LOG_INFO, ''Destroying sandbox for app: '' @ app_id),
                    (ESP_LOG_WARN, ''Sandbox not found for app: '' @ app_id)]\<rparr>)
       \<and> s_sandboxes (snd (app_sandbox_destroy w (Some app_id))) = s_sandboxes w
       \<and> s_sandbox_count (snd (app_sandbox_destroy w (Some app_id))) = s_sandbox_count w"
proof -
  have "find_sandbox (sandbox_logf ESP_LOG_INFO (''Destroying sandbox for app: '' @ app_id) w) app_id
          = None"
    using assms by (simp add: find_sandbox_def sandbox_logf_def first_index_None)
  then show ?thesis
    by (simp add: app_sandbox_destroy_def Let_def sandbox_logf_def)
qed

theorem destroy_without_sandbox_witness:
  "app_sandbox_destroy boot_world (Some ''app_1a2b3c4d'') =
     (ESP_ERR_NOT_FOUND,
      boot_world\<lparr>sandbox_log := sandbox_log boot_world
           @ [(ESP_LOG_INFO, ''Destroying sandbox for app: '' @ ''app_1a2b3c4d''),
              (ESP_LOG_WARN, ''Sandbox not found for app: '' @ ''app_1a2b3c4d'')]\<rparr>)
   \<and> s_sandboxes (snd (app_sandbox_destroy boot_world (Some ''app_1a2b3c4d'')))
       = s_sandboxes boot_world
   \<and> s_sandbox_count (snd (app_sandbox_destroy boot_world (Some ''app_1a2b3c4d'')))
       = s_sandbox_count boot_world"
proof -
  have h: "\<forall>sb \<in> set (s_sandboxes boot_world). \<not> (sb_active sb \<and> sb_app_id sb = ''app_1a2b3c4d'')"
    by (simp add: boot_world_def cleared_sandbox_def)
  from destroy_without_sandbox [OF h] show ?thesis by blast
qed

text \<open>
  C9 as the claim states it fails: after the boot no app has a sandbox, and destroying
  the sandbox of an app does not succeed, it returns \<open>ESP_ERR_NOT_FOUND\<close>.
\<close>

theorem destroy_without_sandbox_fails:
  "find_sandbox boot_world ''app_1a2b3c4d'' = None
   \<and> fst (app_sandbox_destroy boot_world (Some ''app_1a2b3c4d'')) \<noteq> ESP_OK"
  by (simp add: app_sandbox_destroy_def find_sandbox_def sandbox_logf_def boot_world_def
      cleared_sandbox_def Let_def replicate8)

text \<open>
  C8. When the registry holds \<open>MAX_INSTALLED_APPS\<close> records, an install fails with
  \<open>ESP_ERR_NO_MEM\<close> (the code the sources use for a full registry), writes no id, and
  leaves the whole state as it was: the registry still has its sixteen records, each
  unchanged.
\<close>

theorem install_beyond_capacity:
  assumes "length (s_installed_apps w) = MAX_INSTALLED_APPS"
  shows "app_manager_install w (Some package_path) True = (ESP_ERR_NO_MEM, None, w)
       \<and> s_installed_apps (snd (snd (app_manager_install w (Some package_path) True)))
           = s_installed_apps w
       \<and> length (s_installed_apps (snd (snd (app_manager_install w (Some package_path) True))))
           = MAX_INSTALLED_APPS"
  using assms by (simp add: app_manager_install_def)

theorem install_beyond_capacity_witness:
  "length (s_installed_apps full_world) = MAX_INSTALLED_APPS
   \<and> app_manager_install full_world (Some ''/sdcard/tester.pkg'') True
       = (ESP_ERR_NO_MEM, None, full_world)
   \<and> s_installed_apps (snd (snd (app_manager_install full_world (Some ''/sdcard/tester.pkg'') True)))
       = s_installed_apps full_world
   \<and> length (s_installed_apps (snd (snd (app_manager_install full_world
         (Some ''/sdcard/tester.pkg'') True)))) = MAX_INSTALLED_APPS"
proof -
  have h: "length (s_installed_apps full_world) = MAX_INSTALLED_APPS"
    by (simp add: full_world_def MAX_INSTALLED_APPS_def)
  from install_beyond_capacity [OF h, of "''/sdcard/tester.pkg''"] h show ?thesis by simp
qed

text \<open>
  C7. When the registry's record of the app is in state Running, \<open>app_manager_start_app\<close>
  returns \<open>ESP_OK\<close> and the state is the one before the call: no sandbox is created, the
  pool and the sandbox count are unchanged.
\<close>

theorem start_running_app_again:
  assumes "find (\<lambda>a. ai_id a = app_id) (s_installed_apps w) = Some a"
    and "ai_state a = APP_STATE_RUNNING"
  shows "app_manager_start_app pf w (Some app_id) = Some (ESP_OK, w)
       \<and> map_option (s_sandboxes \<circ> snd) (app_manager_start_app pf w (Some app_id))
           = Some (s_sandboxes w)
       \<and> map_option (s_sandbox_count \<circ> snd) (app_manager_start_app pf w (Some app_id))
           = Some (s_sandbox_count w)"
proof -
  from first_index_find [OF assms(1), of 0] obtain j where
    "first_index (\<lambda>a. ai_id a = app_id) (s_installed_apps w) 0 = Some j"
    "s_installed_apps w ! j = a" by auto
  with assms(2) show ?thesis by (simp add: app_manager_start_app_def)
qed

theorem start_running_app_again_witness:
  "find (\<lambda>a. ai_id a = ''app_1a2b3c4d'') (s_installed_apps started_world)
     = Some \<lparr>ai_id = ''app_1a2b3c4d'', ai_name = ''Sample App'', ai_version = ''1.0.0'',
            ai_author = ''Unknown'', ai_entry_point = ''index.js'',
            ai_install_path = ''/apps/app_1a2b3c4d'', ai_state = APP_STATE_RUNNING,
            ai_js_context = Some 0x3ffb2000, ai_memory_usage = 0, ai_cpu_time = 0,
            ai_is_system_app = False,
            ai_permissions = APP_PERM_RF_RECEIVE OR APP_PERM_UI_CREATE\<rparr>
   \<and> app_manager_start_app test_platform started_world (Some ''app_1a2b3c4d'')
       = Some (ESP_OK, started_world)
   \<and> map_option (s_sandbox_count \<circ> snd)
        (app_manager_start_app test_platform started_world (Some ''app_1a2b3c4d''))
       = Some (s_sandbox_count started_world)"
proof -
  have st: "ai_state \<lparr>ai_id = ''app_1a2b3c4d'', ai_name = ''Sample App'', ai_version = ''1.0.0'',
            ai_author = ''Unknown'', ai_entry_point = ''index.js'',
            ai_install_path = ''/apps/app_1a2b3c4d'', ai_state = APP_STATE_RUNNING,
            ai_js_context = Some 0x3ffb2000, ai_memory_usage = 0, ai_cpu_time = 0,
            ai_is_system_app = False,
            ai_permissions = APP_PERM_RF_RECEIVE OR APP_PERM_UI_CREATE\<rparr> = APP_STATE_RUNNING"
    by simp
  from start_running_app_again [OF started_registry st, of test_platform] started_registry
  show ?thesis by blast
qed

subsection \<open>Installing a package\<close>

lemma length_hex8: "length (hex8 r) = 8"
  by (simp add: hex8_def)

lemma parent_dir_file: "CHR ''/'' \<notin> set name \<Longrightarrow> parent_dir (dir @ ''/'' @ name) = dir"
proof -
  assume "CHR ''/'' \<notin> set name"
  then have "dropWhile (\<lambda>c. c \<noteq> CHR ''/'') (rev name @ CHR ''/'' # rev dir) = CHR ''/'' # rev dir"
    by (subst dropWhile_append2) auto
  then show ?thesis by (simp add: parent_dir_def)
qed

lemma copy_loop_dirs: "fs_dirs (copy_loop src dst f) = fs_dirs f"
proof (induction src dst f rule: copy_loop.induct)
  case (1 src dst f)
  show ?case
  proof (cases "length (take 512 src) > 0")
    case True
    then show ?thesis using "1.IH" by (subst copy_loop.simps) (simp add: fwrite_def)
  next
    case False
    then show ?thesis by (subst copy_loop.simps) simp
  qed
qed

lemma snprintf_fits: "length s < n \<Longrightarrow> snprintf n s = s"
  by (simp add: snprintf_def)

lemma fold_fwrite_file:
  "fs_files g0 p = Some old \<Longrightarrow>
     fs_files (fold (\<lambda>line g. fwrite g p line) ls g0) p = Some (old @ concat ls)"
proof (induction ls arbitrary: g0 old)
  case Nil
  then show ?case by simp
next
  case (Cons l ls)
  from Cons.prems have "fs_files (fwrite g0 p l) p = Some (old @ l)"
    by (simp add: fwrite_def)
  from Cons.IH [OF this] show ?case by simp
qed

lemma basic_manifest_read:
  "read_manifest_lines (concat basic_manifest_lines) empty_manifest =
     basic_manifest\<lparr>mf_memory_limit := 0\<rparr>"
  by (simp add: basic_manifest_lines_def quoted_def read_manifest_lines.simps fgets_def
         parse_manifest_line_def find_char_def empty_manifest_def Let_def basic_manifest_def)

lemma extract_writes_basic_manifest:
  assumes ex: "app_installer_extract_package f (Some pkg) (Some dir) = (ESP_OK, f')"
    and wf: "fs_wf f"
    and len: "length dir + 14 < 256"
  shows "fs_files f' (dir @ ''/manifest.json'') = Some (concat basic_manifest_lines)"
proof -
  let ?idx = "dir @ ''/index.js''" and ?mp = "dir @ ''/manifest.json''"
  have sn: "snprintf 256 ?idx = ?idx" "snprintf 256 ?mp = ?mp"
    using len by (simp_all add: snprintf_def)
  from ex obtain f1 where mk: "mkdir f dir = Some f1"
    by (auto simp: app_installer_extract_package_def split: option.splits)
  then have f1: "f1 = f\<lparr>fs_dirs := dir # fs_dirs f\<rparr>" and nd: "dir \<notin> set (fs_dirs f)"
    by (auto simp: mkdir_def split: if_splits)
  from ex mk obtain src where rd: "fopen_r f1 pkg = Some src"
    by (auto simp: app_installer_extract_package_def split: option.splits)
  from ex mk rd obtain f2 where op: "fopen_w f1 ?idx = Some f2"
    by (auto simp: app_installer_extract_package_def sn Let_def split: option.splits)
  then have d2: "fs_dirs f2 = dir # fs_dirs f"
    by (auto simp: fopen_w_def f1 split: if_splits)
  define f3 where "f3 = copy_loop src ?idx f2"
  have d3: "fs_dirs f3 = dir # fs_dirs f" by (simp add: f3_def copy_loop_dirs d2)
  have pd: "parent_dir ?mp = dir"
    using parent_dir_file [of "''manifest.json''" dir] by simp
  have "?mp \<notin> set (fs_dirs f)"
  proof
    assume "?mp \<in> set (fs_dirs f)"
    with wf have "?mp = [] \<or> parent_dir ?mp \<in> set (fs_dirs f)" by (auto simp: fs_wf_def)
    with pd nd show False by simp
  qed
  moreover have "?mp \<noteq> dir" by simp
  ultimately have "fopen_w f3 ?mp = Some (f3\<lparr>fs_files := (fs_files f3)(?mp \<mapsto> [])\<rparr>)"
    by (simp add: fopen_w_def d3 pd)
  with ex mk rd op have "f' = fold (\<lambda>line g. fwrite g ?mp line) basic_manifest_lines
                                (f3\<lparr>fs_files := (fs_files f3)(?mp \<mapsto> [])\<rparr>)"
    by (simp add: app_installer_extract_package_def sn Let_def f3_def)
  then show ?thesis by (simp add: fold_fwrite_file [where old = "[]"])
qed

lemma parse_basic_permissions:
  "app_permissions_parse_string strdup_ok (Some ''rf.receive,ui.create'')
     = (if strdup_ok then APP_PERM_RF_RECEIVE OR APP_PERM_UI_CREATE else 0)"
  by (simp add: app_permissions_parse_string_def parse_tokens.simps strtok_def trim_token_def
      permission_map_def APP_PERM_defs)

lemma check_permission_loop_fresh:
  "\<forall>a \<in> set apps. ai_id a \<noteq> app_id \<Longrightarrow>
     check_permission_loop (apps @ [r]) app_id permission
       = (ai_id r = app_id \<and> (ai_permissions r AND permission) \<noteq> 0)"
  by (induction apps) auto

lemma install_ok_unfold:
  assumes ok: "fst (app_manager_install w (Some pkg) True) = ESP_OK"
    and wf: "fs_wf (fs w)"
  shows "app_manager_install w (Some pkg) True =
    (ESP_OK, Some (''app_'' @ hex8 (random_words w (random_count w))),
     w\<lparr>random_count := Suc (random_count w),
        fs := snd (app_installer_extract_package (fs w) (Some pkg)
                    (Some (''/apps/app_'' @ hex8 (random_words w (random_count w))))),
        alloc_count := Suc (alloc_count w),
        s_installed_apps := s_installed_apps w @
          [\<lparr>ai_id = ''app_'' @ hex8 (random_words w (random_count w)),
            ai_name = ''Sample App'', ai_version = ''1.0.0'', ai_author = ''Unknown'',
            ai_entry_point = ''index.js'',
            ai_install_path = ''/apps/app_'' @ hex8 (random_words w (random_count w)),
            ai_state = APP_STATE_STOPPED, ai_js_context = None, ai_memory_usage = 0,
            ai_cpu_time = 0, ai_is_system_app = False,
            ai_permissions = (if alloc_ok w (alloc_count w)
                              then APP_PERM_RF_RECEIVE OR APP_PERM_UI_CREATE else 0)\<rparr>]\<rparr>)"
proof -
  let ?r = "random_words w (random_count w)"
  let ?id = "''app_'' @ hex8 ?r"
  let ?dir = "''/apps/app_'' @ hex8 ?r"
  let ?w1 = "w\<lparr>random_count := Suc (random_count w)\<rparr>"
  note sn = snprintf_fits MAX_APP_PATH_LEN_def length_hex8
  obtain ret f1 where ex: "app_installer_extract_package (fs w) (Some pkg) (Some ?dir) = (ret, f1)"
    by (cases "app_installer_extract_package (fs w) (Some pkg) (Some ?dir)")
  have cap: "\<not> length (s_installed_apps w) \<ge> MAX_INSTALLED_APPS"
    using ok by (auto simp: app_manager_install_def)
  have ret: "ret = ESP_OK"
    using ok cap ex
    by (auto simp: app_manager_install_def esp_random_def sn Let_def
        split: if_splits sum.splits prod.splits)
  have mf: "fs_files f1 (?dir @ ''/manifest.json'') = Some (concat basic_manifest_lines)"
    by (rule extract_writes_basic_manifest [OF ex [unfolded ret] wf]) (simp add: length_hex8)
  have lm: "mjs_engine_load_manifest f1 (Some (?dir @ ''/manifest.json'')) True = Inr basic_manifest"
    using mf
    by (simp add: mjs_engine_load_manifest_def fopen_r_def basic_manifest_read Let_def)
       (simp add: basic_manifest_def DEFAULT_MEMORY_LIMIT_def)
  show ?thesis
    using cap ex ret lm
    by (simp add: app_manager_install_def esp_random_def sn Let_def heap_alloc_def
        basic_manifest_def parse_basic_permissions)
qed


text \<open>
  C4 as the code has it. Let an install succeed on a well-formed file system, with a new
  id that no record of the registry carries yet. Whatever the package holds, the
  registry gains exactly one record, the one for the new id; it carries the fields of
  the installer's basic manifest (name ``Sample App'', version ``1.0.0'', entry point
  ``index.js'') and the state Stopped; \<open>app_manager_list_apps\<close> delivers the old records
  followed by it; and \<open>app_manager_check_permission\<close> answers false for the new id both
  for \<open>APP_PERM_GPIO_READ\<close> and for \<open>APP_PERM_GPIO_WRITE\<close>.
\<close>

theorem install_registers_basic_manifest:
  assumes ok: "fst (app_manager_install w (Some pkg) True) = ESP_OK"
    and wf: "fs_wf (fs w)"
    and fresh: "\<forall>a \<in> set (s_installed_apps w).
                  ai_id a \<noteq> ''app_'' @ hex8 (random_words w (random_count w))"
  shows "fst (snd (app_manager_install w (Some pkg) True))
           = Some (''app_'' @ hex8 (random_words w (random_count w)))
       \<and> s_installed_apps (snd (snd (app_manager_install w (Some pkg) True)))
           = s_installed_apps w
             @ [basic_app_record (''app_'' @ hex8 (random_words w (random_count w)))
                  (alloc_ok w (alloc_count w))]
       \<and> filter (\<lambda>a. ai_id a = ''app_'' @ hex8 (random_words w (random_count w)))
            (s_installed_apps (snd (snd (app_manager_install w (Some pkg) True))))
           = [basic_app_record (''app_'' @ hex8 (random_words w (random_count w)))
                (alloc_ok w (alloc_count w))]
       \<and> app_manager_list_apps (snd (snd (app_manager_install w (Some pkg) True)))
            (Some buf) MAX_INSTALLED_APPS True
           = (ESP_OK,
              Some (s_installed_apps w
                    @ [basic_app_record (''app_'' @ hex8 (random_words w (random_count w)))
                         (alloc_ok w (alloc_count w))]
                    @ drop (Suc (length (s_installed_apps w))) buf),
              Some (Suc (length (s_installed_apps w))))
       \<and> \<not> app_manager_check_permission (snd (snd (app_manager_install w (Some pkg) True)))
              (Some (''app_'' @ hex8 (random_words w (random_count w)))) APP_PERM_GPIO_READ
       \<and> \<not> app_manager_check_permission (snd (snd (app_manager_install w (Some pkg) True)))
              (Some (''app_'' @ hex8 (random_words w (random_count w)))) APP_PERM_GPIO_WRITE"
proof -
  define new_id where "new_id = ''app_'' @ hex8 (random_words w (random_count w))"
  define r where "r = basic_app_record new_id (alloc_ok w (alloc_count w))"
  define w' where "w' = snd (snd (app_manager_install w (Some pkg) True))"
  have cap: "length (s_installed_apps w) < MAX_INSTALLED_APPS"
    using ok by (auto simp: app_manager_install_def split: if_splits)
  have id: "fst (snd (app_manager_install w (Some pkg) True)) = Some new_id"
    and apps: "s_installed_apps w' = s_installed_apps w @ [r]"
    unfolding w'_def r_def new_id_def install_ok_unfold [OF ok wf]
    by (simp_all add: basic_app_record_def)
  have rid: "ai_id r = new_id" by (simp add: r_def basic_app_record_def)
  have fr: "\<forall>a \<in> set (s_installed_apps w). ai_id a \<noteq> new_id"
    using fresh by (simp add: new_id_def)
  then have flt: "filter (\<lambda>a. ai_id a = new_id) (s_installed_apps w') = [r]"
    by (simp add: apps rid filter_empty_conv)
  have lst: "app_manager_list_apps w' (Some buf) MAX_INSTALLED_APPS True
      = (ESP_OK, Some (s_installed_apps w @ [r] @ drop (Suc (length (s_installed_apps w))) buf),
         Some (Suc (length (s_installed_apps w))))"
    using cap by (simp add: app_manager_list_apps_def apps Let_def)
  have perm: "ai_permissions r AND APP_PERM_GPIO_READ = 0"
    "ai_permissions r AND APP_PERM_GPIO_WRITE = 0"
    by (simp_all add: r_def basic_app_record_def APP_PERM_defs)
  have chk: "\<not> app_manager_check_permission w' (Some new_id) APP_PERM_GPIO_READ"
    "\<not> app_manager_check_permission w' (Some new_id) APP_PERM_GPIO_WRITE"
    by (simp_all add: app_manager_check_permission_def apps check_permission_loop_fresh [OF fr] perm)
  show ?thesis
    using id apps flt lst chk unfolding new_id_def r_def w'_def by blast
qed

theorem install_registers_basic_manifest_witness:
  "fst (app_manager_install boot_world (Some ''/sdcard/tester.pkg'') True) = ESP_OK
   \<and> s_installed_apps (snd (snd (app_manager_install boot_world (Some ''/sdcard/tester.pkg'') True)))
       = s_installed_apps boot_world
         @ [basic_app_record (''app_'' @ hex8 (random_words boot_world (random_count boot_world)))
              (alloc_ok boot_world (alloc_count boot_world))]
   \<and> \<not> app_manager_check_permission
          (snd (snd (app_manager_install boot_world (Some ''/sdcard/tester.pkg'') True)))
          (Some (''app_'' @ hex8 (random_words boot_world (random_count boot_world))))
          APP_PERM_GPIO_READ"
proof -
  have ok: "fst (app_manager_install boot_world (Some ''/sdcard/tester.pkg'') True) = ESP_OK"
    by (simp add: first_install)
  have wf: "fs_wf (fs boot_world)"
    by (simp add: fs_wf_def boot_world_def parent_dir_def)
  have fresh: "\<forall>a \<in> set (s_installed_apps boot_world).
         ai_id a \<noteq> ''app_'' @ hex8 (random_words boot_world (random_count boot_world))"
    by (simp add: boot_world_def)
  from install_registers_basic_manifest [OF ok wf fresh] ok
  show ?thesis by blast
qed

text \<open>
  C4 as the claim states it fails. The package is a text that the manifest reader of the
  firmware reads as the manifest of ``Tester'', version ``0.1'', with the permissions
  ``gpio.read,rf.transmit''. Its install succeeds; the one record of the registry is
  named ``Sample App'' with version ``1.0.0'', and the check of \<open>APP_PERM_GPIO_READ\<close>
  for the new id answers false.
\<close>

theorem install_tester_package:
  "mf_name (read_manifest_lines tester_package empty_manifest) = ''Tester''
   \<and> mf_version (read_manifest_lines tester_package empty_manifest) = ''0.1''
   \<and> mf_permissions (read_manifest_lines tester_package empty_manifest) = ''gpio.read,rf.transmit''
   \<and> fopen_r (fs boot_world) ''/sdcard/tester.pkg'' = Some tester_package
   \<and> app_manager_install boot_world (Some ''/sdcard/tester.pkg'') True
       = (ESP_OK, Some ''app_1a2b3c4d'', installed_world)
   \<and> map ai_name (s_installed_apps installed_world) = [''Sample App'']
   \<and> map ai_version (s_installed_apps installed_world) = [''1.0.0'']
   \<and> \<not> app_manager_check_permission installed_world (Some ''app_1a2b3c4d'') APP_PERM_GPIO_READ"
  by (simp add: tester_package_manifest first_install)
     (simp add: installed_world_def boot_world_def fopen_r_def app_manager_check_permission_def
        APP_PERM_defs)


end
